theory Spec2Isabelle
  imports Complex_Main
begin

section \<open>Tensors\<close>

text \<open>
  Tensor entries are modelled as real numbers, and the arithmetic of the source is read as
  exact arithmetic. The exception is the palette projection, which selects a bin by comparing
  computed numbers: \<open>projection_chrom_rounded\<close> has the rounding of the number format as a
  parameter.

  The input image has an unknown number of axes, so it is a shape together with the entry at
  every index. The maps the pipeline works on have a fixed number of axes and are nested
  lists: a \<open>plane\<close> is an \<open>H x W\<close> map (a list of rows), an \<open>image\<close> is a tensor of shape
  \<open>(1, C, H, W)\<close> given by its \<open>C\<close> planes (the batch axis always has size 1 in the source).
\<close>

record 'a ndarray =
  shape :: "nat list"
  entry :: "nat list \<Rightarrow> 'a"

definition ndim :: "'a ndarray \<Rightarrow> nat" where
  "ndim t = length (shape t)"

text \<open>\<open>t.select(dim, i)\<close>: the slice of \<open>t\<close> at index \<open>i\<close> along the axis \<open>dim\<close>; the axis is removed.\<close>

definition select :: "'a ndarray \<Rightarrow> nat \<Rightarrow> nat \<Rightarrow> 'a ndarray" where
  "select t axis i =
     \<lparr>shape = take axis (shape t) @ drop (Suc axis) (shape t),
      entry = (\<lambda>idx. entry t (take axis idx @ i # drop axis idx))\<rparr>"

definition scale_ndarray :: "real ndarray \<Rightarrow> real \<Rightarrow> real ndarray" where
  "scale_ndarray t c = t\<lparr>entry := (\<lambda>idx. entry t idx * c)\<rparr>"

type_synonym plane = "real list list"
type_synonym image = "plane list"

definition is_plane :: "nat \<Rightarrow> nat \<Rightarrow> plane \<Rightarrow> bool" where
  "is_plane h w p \<longleftrightarrow> length p = h \<and> list_all (\<lambda>r. length r = w) p"

definition is_image :: "nat \<Rightarrow> nat \<Rightarrow> nat \<Rightarrow> image \<Rightarrow> bool" where
  "is_image c h w t \<longleftrightarrow> length t = c \<and> list_all (is_plane h w) t"

definition pmap :: "(real \<Rightarrow> real) \<Rightarrow> plane \<Rightarrow> plane" where
  "pmap f p = map (map f) p"

definition pmap2 :: "(real \<Rightarrow> real \<Rightarrow> real) \<Rightarrow> plane \<Rightarrow> plane \<Rightarrow> plane" where
  "pmap2 f p q = map2 (map2 f) p q"

definition tmap :: "(real \<Rightarrow> real) \<Rightarrow> image \<Rightarrow> image" where
  "tmap f t = map (pmap f) t"

text \<open>\<open>torch.ones(1, c, h, w)\<close>.\<close>

definition ones_tensor :: "nat \<Rightarrow> nat \<Rightarrow> nat \<Rightarrow> image" where
  "ones_tensor c h w = replicate c (replicate h (replicate w 1))"

text \<open>\<open>torch.clip(p, lo, hi)\<close>.\<close>

definition clip :: "plane \<Rightarrow> real \<Rightarrow> real \<Rightarrow> plane" where
  "clip p lo hi = pmap (\<lambda>x. min (max x lo) hi) p"

text \<open>
  \<open>torch.argmin\<close> and \<open>torch.argmax\<close> along an axis return the index of the first minimal
  (maximal) value. On an axis without entries they raise; the pipeline never calls them so.
\<close>

fun argmin :: "real list \<Rightarrow> nat" where
  "argmin [] = 0"
| "argmin [x] = 0"
| "argmin (x # y # ys) = (let k = argmin (y # ys) in if x \<le> (y # ys) ! k then 0 else Suc k)"

fun argmax :: "real list \<Rightarrow> nat" where
  "argmax [] = 0"
| "argmax [x] = 0"
| "argmax (x # y # ys) = (let k = argmax (y # ys) in if (y # ys) ! k \<le> x then 0 else Suc k)"

text \<open>
  \<open>torch.argmin(t, dim=1)\<close> and \<open>torch.argmax(t, axis=1)\<close> for \<open>t\<close> of shape \<open>(1, n, h, w)\<close>:
  the index map of shape \<open>(1, h, w)\<close>.
\<close>

definition along_dim1 :: "(real list \<Rightarrow> nat) \<Rightarrow> image \<Rightarrow> nat list list" where
  "along_dim1 arg t =
     (case t of
        [] \<Rightarrow> []
      | p # _ \<Rightarrow> map (\<lambda>i. map (\<lambda>j. arg (map (\<lambda>q. q ! i ! j) t)) [0..<length (hd p)])
                   [0..<length p])"

text \<open>
  \<open>torch.gather(t, 1, ind.unsqueeze(2)).squeeze(2)\<close> for \<open>t\<close> of shape \<open>(1, n, h, w)\<close> and
  \<open>ind\<close> of shape \<open>(1, h, w)\<close>. The index tensor has shape \<open>(1, h, 1, w)\<close>, so the entry
  \<open>[0][j][0][l]\<close> of the result is \<open>t[0][ind[0][j][l]][0][l]\<close>: row 0 of the selected plane.
\<close>

definition gather_dim1 :: "image \<Rightarrow> nat list list \<Rightarrow> plane" where
  "gather_dim1 t ind = map (\<lambda>row. map (\<lambda>(l, k). t ! k ! 0 ! l) (enumerate 0 row)) ind"

text \<open>\<open>v[None, :, None, None] * ones\<close> for a vector \<open>v\<close> with one entry per plane of \<open>ones\<close>.\<close>

definition broadcast_bins :: "real list \<Rightarrow> image \<Rightarrow> image" where
  "broadcast_bins v ones' = map2 (\<lambda>c p. pmap (\<lambda>x. c * x) p) v ones'"

subsection \<open>Slices, elementwise arithmetic with broadcasting, reductions\<close>

definition cols_from1 :: "image \<Rightarrow> image" where
  \<comment> \<open>\<open>t[:, :, :, 1:]\<close>\<close>
  "cols_from1 t = map (map tl) t"

definition cols_to_last :: "image \<Rightarrow> image" where
  \<comment> \<open>\<open>t[:, :, :, :-1]\<close>\<close>
  "cols_to_last t = map (map butlast) t"

definition rows_from1 :: "image \<Rightarrow> image" where
  \<comment> \<open>\<open>t[:, :, 1:, :]\<close>\<close>
  "rows_from1 t = map tl t"

definition rows_to_last :: "image \<Rightarrow> image" where
  \<comment> \<open>\<open>t[:, :, :-1, :]\<close>\<close>
  "rows_to_last t = map butlast t"

definition tsub :: "image \<Rightarrow> image \<Rightarrow> image" where
  "tsub s t = map2 (pmap2 (-)) s t"

definition tpow2 :: "image \<Rightarrow> image" where
  "tpow2 t = tmap (\<lambda>x. x\<^sup>2) t"

text \<open>
  \<open>s + t\<close> for shapes \<open>(1, c, h, w)\<close> and \<open>(1, c', h, w)\<close>: an operand with a single plane is
  broadcast along the channel axis. Other channel counts that differ do not broadcast
  (torch raises); the empty tensor stands for that case, which the loss never reaches.
\<close>

definition tadd :: "image \<Rightarrow> image \<Rightarrow> image" where
  "tadd s t =
     (if length s = length t then map2 (pmap2 (+)) s t
      else if length s = 1 then map (\<lambda>q. pmap2 (+) (hd s) q) t
      else if length t = 1 then map (\<lambda>p. pmap2 (+) p (hd t)) s
      else [])"

definition tsum :: "image \<Rightarrow> real" where
  \<comment> \<open>\<open>torch.sum(t)\<close>\<close>
  "tsum t = (\<Sum>p\<leftarrow>t. \<Sum>r\<leftarrow>p. sum_list r)"

definition numel :: "image \<Rightarrow> nat" where
  "numel t = (\<Sum>p\<leftarrow>t. \<Sum>r\<leftarrow>p. length r)"

text \<open>\<open>torch.nn.MSELoss()\<close>: the mean of the squared differences over all entries.\<close>

definition loss_fn :: "image \<Rightarrow> image \<Rightarrow> real" where
  "loss_fn s t = tsum (tpow2 (tsub s t)) / real (numel s)"

text \<open>\<open>t.sum(axis=1)\<close> for \<open>t\<close> of shape \<open>(2, n, h, w)\<close>, here for one of its two slices.\<close>

definition sum_bins :: "image \<Rightarrow> plane" where
  "sum_bins t =
     (case t of
        [] \<Rightarrow> []
      | p # _ \<Rightarrow> map (\<lambda>i. map (\<lambda>j. (\<Sum>q\<leftarrow>t. q ! i ! j)) [0..<length (hd p)]) [0..<length p])"

text \<open>
  \<open>torch.einsum("abcd,bn->nbcd", P, C)\<close> for \<open>P\<close> of shape \<open>(1, n, h, w)\<close> and \<open>C\<close> of shape
  \<open>(n, 2)\<close>, a row of \<open>C\<close> being a pair: entry \<open>[m][b][c][d]\<close> is \<open>P[0][b][c][d] * C[b][m]\<close>.
\<close>

definition einsum_abcd_bn_nbcd :: "image \<Rightarrow> (real \<times> real) list \<Rightarrow> image list" where
  "einsum_abcd_bn_nbcd P C = map (\<lambda>col. map2 (\<lambda>p c. pmap (\<lambda>x. x * col c) p) P C) [fst, snd]"

section \<open>Collaborators and sizes\<close>

text \<open>
  The modules \<open>src.coef_chrominance\<close>, \<open>src.eccv16\<close>, \<open>src.dip\<close> and \<open>src.utils\<close> are used by
  \<open>image_colorization.py\<close> and are not part of it. What they provide is a parameter of the
  model: the palette \<open>COEFS\<close> (one pair of coefficients per bin), the pretrained predictor,
  \<open>BaseColor.unnormalize_ab\<close> (applied entry by entry), the resize, upsampling and colour
  conversion functions, the prior network on its fixed noise input as a function of its
  parameters, the downsampler, and the optimizer: \<open>backward\<close> is the gradient of a loss in
  the parameters, \<open>adam\<close> the fresh optimizer for a learning rate and \<open>adam_step\<close> one update.

  The source fixes the sizes \<open>n_bins = 313\<close>, \<open>size_lo = 64\<close> and \<open>size_hi = 256\<close>. They are
  parameters here, so that the theorems hold for these sizes and the definitions can be
  evaluated on small tensors.
\<close>

record ('p, 'o, 'g) collab =
  n_bins :: nat
  size_lo :: nat
  size_hi :: nat
  COEFS :: "(real \<times> real) list"
  resize_image :: "real ndarray \<Rightarrow> nat \<times> nat \<Rightarrow> plane"
  colorizer :: "plane \<Rightarrow> image"
  unnormalize_ab :: "real \<Rightarrow> real"
  lab_to_rgb :: "image \<Rightarrow> image"
  upsample :: "image \<Rightarrow> image"
  dip_net :: "'p \<Rightarrow> image"
  downsampler :: "image \<Rightarrow> image"
  backward :: "('p \<Rightarrow> real) \<Rightarrow> 'p \<Rightarrow> 'g"
  adam :: "real \<Rightarrow> 'o"
  adam_step :: "'o \<Rightarrow> 'p \<Rightarrow> 'g \<Rightarrow> 'o \<times> 'p"

datatype error = IndexError | RuntimeError

section \<open>convert_to_single_channel\<close>

definition convert_to_single_channel :: "'a ndarray \<Rightarrow> 'a ndarray" where
  "convert_to_single_channel img =
     (if ndim img = 3 then
        (case find (\<lambda>axis. shape img ! axis = 3) [0, 1, 2] of
           Some axis \<Rightarrow> select img axis 0
         | None \<Rightarrow> img)
      else img)"

section \<open>ECCVImage\<close>

record eccv_image =
  original_bw :: "real ndarray"
  luminance_256 :: plane
  luminance_64 :: plane
  proba_distrib :: image
  proba_chrom_norm :: "image list"
  proba_chrom_unnorm :: "image list"
  chrom_mean_unnorm :: image
  lab_mean_64 :: image
  rgb_mean :: image
  output_upsampled :: image

text \<open>
  Broadcasting of a map \<open>v\<close> of shape \<open>(a, b)\<close> to the shape \<open>(h, w)\<close> of a plane \<open>p\<close>, as torch
  does in an assignment: \<open>a\<close> must be \<open>h\<close> or 1 and \<open>b\<close> must be \<open>w\<close> or 1, and an axis of size 1
  is repeated. Otherwise the shapes do not broadcast.
\<close>

definition broadcast_row :: "nat \<Rightarrow> real list \<Rightarrow> real list option" where
  "broadcast_row w r =
     (if length r = w then Some r
      else if length r = 1 then Some (replicate w (r ! 0))
      else None)"

definition broadcast_plane :: "plane \<Rightarrow> plane \<Rightarrow> plane option" where
  "broadcast_plane p v =
     (if length v = length p then those (map2 (\<lambda>r q. broadcast_row (length q) r) v p)
      else if length v = 1 then those (map (\<lambda>q. broadcast_row (length q) (v ! 0)) p)
      else None)"

text \<open>
  \<open>t[:, [0], :] = v\<close> for \<open>t\<close> of shape \<open>(1, c, h, w)\<close> and a map \<open>v\<close>: channel 0 is replaced
  by \<open>v\<close>, broadcast to \<open>(h, w)\<close>. Without a channel 0 the index is out of range
  (\<open>IndexError\<close>), and a map that does not broadcast to \<open>(h, w)\<close> cannot be assigned
  (\<open>RuntimeError\<close>).
\<close>

definition assign_channel0 :: "image \<Rightarrow> plane \<Rightarrow> error + image" where
  "assign_channel0 t v =
     (case t of
        [] \<Rightarrow> Inl IndexError
      | p # _ \<Rightarrow>
          (case broadcast_plane p v of
             None \<Rightarrow> Inl RuntimeError
           | Some b \<Rightarrow> Inr (t[0 := b])))"

definition process_eccv ::
  "('p, 'o, 'g) collab \<Rightarrow> real ndarray \<Rightarrow> plane \<Rightarrow> plane \<Rightarrow> error + eccv_image" where
  "process_eccv cfg bw lum256 lum64 =
     (let distrib = colorizer cfg lum256;
          chrom_norm = einsum_abcd_bn_nbcd distrib (COEFS cfg);
          chrom_unnorm = map (tmap (unnormalize_ab cfg)) chrom_norm;
          chrom_mean = map sum_bins chrom_unnorm;
          lab_mean = lum64 # chrom_mean
      in case assign_channel0 (upsample cfg lab_mean) lum256 of
           Inl e \<Rightarrow> Inl e
         | Inr upsampled \<Rightarrow>
             Inr \<lparr>original_bw = bw, luminance_256 = lum256, luminance_64 = lum64,
                  proba_distrib = distrib, proba_chrom_norm = chrom_norm,
                  proba_chrom_unnorm = chrom_unnorm, chrom_mean_unnorm = chrom_mean,
                  lab_mean_64 = lab_mean, rgb_mean = lab_to_rgb cfg lab_mean,
                  output_upsampled = upsampled\<rparr>)"

definition eccv_init :: "('p, 'o, 'g) collab \<Rightarrow> real ndarray \<Rightarrow> error + eccv_image" where
  "eccv_init cfg black_image =
     (let black_image_single = convert_to_single_channel black_image;
          black_image_norm = scale_ndarray black_image_single (100 / 255);
          lum256 = clip (resize_image cfg black_image_norm (size_hi cfg, size_hi cfg)) 0 100;
          lum64 = clip (resize_image cfg black_image_norm (size_lo cfg, size_lo cfg)) 0 100
      in process_eccv cfg black_image_norm lum256 lum64)"

section \<open>LoriaImageColorization\<close>

text \<open>
  The fields the subclass adds. \<open>params\<close> are the parameters of the prior network. \<open>out\<close> is
  \<open>None\<close> for the empty tensor \<open>torch.zeros(0)\<close> it is initialised to, and the network's
  output afterwards.
\<close>

record 'p loria = eccv_image +
  ones :: image
  params :: 'p
  target_dip :: image
  out :: "image option"

definition coefs_to_128 :: "('p, 'o, 'g) collab \<Rightarrow> (real \<times> real) list" where
  "coefs_to_128 cfg = map (\<lambda>(a, b). (0.5 * (a + 1), 0.5 * (b + 1))) (COEFS cfg)"

definition get_initialized_image :: "('p, 'o, 'g) collab \<Rightarrow> 'p loria \<Rightarrow> image" where
  "get_initialized_image cfg self =
     (let coefs_a = broadcast_bins (map fst (coefs_to_128 cfg)) (ones self);
          coefs_b = broadcast_bins (map snd (coefs_to_128 cfg)) (ones self);
          ind_max = along_dim1 argmax (proba_distrib self);
          chr_a = gather_dim1 coefs_a ind_max;
          chr_b = gather_dim1 coefs_b ind_max;
          initialized = ones_tensor 3 (size_lo cfg) (size_lo cfg)
      in initialized[1 := chr_a, 2 := chr_b, 0 := pmap (\<lambda>x. x / 100) (luminance_64 self)])"

definition projection_chrom :: "('p, 'o, 'g) collab \<Rightarrow> 'p loria \<Rightarrow> image \<Rightarrow> image" where
  "projection_chrom cfg self img =
     (let coefs_a = broadcast_bins (map fst (coefs_to_128 cfg)) (ones self);
          coefs_b = broadcast_bins (map snd (coefs_to_128 cfg)) (ones self);
          ind_min = along_dim1 argmin
            (map2 (\<lambda>pa pb. pmap2 (+) (pmap (\<lambda>x. x\<^sup>2) (pmap2 (-) pa (img ! 1)))
                                     (pmap (\<lambda>x. x\<^sup>2) (pmap2 (-) pb (img ! 2))))
               coefs_a coefs_b);
          projected_chrm_a = gather_dim1 coefs_a ind_min;
          projected_chrm_b = gather_dim1 coefs_b ind_min;
          projected = ones_tensor 3 (size_lo cfg) (size_lo cfg)
      in projected[1 := projected_chrm_a, 2 := projected_chrm_b,
                   0 := pmap (\<lambda>x. x / 100) (luminance_64 self)])"

text \<open>
  \<open>projection_chrom\<close> with the rounding of the tensors' number format made explicit. \<open>fl x\<close> is
  the number of the format that the exact result \<open>x\<close> of an operation rounds to, and every
  addition, subtraction, multiplication, square and division of the function returns \<open>fl\<close> of
  its exact result, in the order in which the source applies them. The minimal index is taken
  of the distances so computed, so distances that round to the same number tie.
  \<open>projection_chrom\<close> above is the instance for exact arithmetic, \<open>fl = exact\<close>.
\<close>

definition exact :: "real \<Rightarrow> real" where
  "exact x = x"

definition coefs_to_128_rounded :: "(real \<Rightarrow> real) \<Rightarrow> ('p, 'o, 'g) collab \<Rightarrow> (real \<times> real) list" where
  "coefs_to_128_rounded fl cfg =
     map (\<lambda>(a, b). (fl (0.5 * fl (a + 1)), fl (0.5 * fl (b + 1)))) (COEFS cfg)"

definition broadcast_bins_rounded :: "(real \<Rightarrow> real) \<Rightarrow> real list \<Rightarrow> image \<Rightarrow> image" where
  "broadcast_bins_rounded fl v ones' = map2 (\<lambda>c p. pmap (\<lambda>x. fl (c * x)) p) v ones'"

definition projection_chrom_rounded ::
  "(real \<Rightarrow> real) \<Rightarrow> ('p, 'o, 'g) collab \<Rightarrow> 'p loria \<Rightarrow> image \<Rightarrow> image" where
  "projection_chrom_rounded fl cfg self img =
     (let coefs_a = broadcast_bins_rounded fl (map fst (coefs_to_128_rounded fl cfg)) (ones self);
          coefs_b = broadcast_bins_rounded fl (map snd (coefs_to_128_rounded fl cfg)) (ones self);
          ind_min = along_dim1 argmin
            (map2 (\<lambda>pa pb. pmap2 (\<lambda>x y. fl (x + y))
                              (pmap (\<lambda>x. fl (x\<^sup>2)) (pmap2 (\<lambda>x y. fl (x - y)) pa (img ! 1)))
                              (pmap (\<lambda>x. fl (x\<^sup>2)) (pmap2 (\<lambda>x y. fl (x - y)) pb (img ! 2))))
               coefs_a coefs_b);
          projected_chrm_a = gather_dim1 coefs_a ind_min;
          projected_chrm_b = gather_dim1 coefs_b ind_min;
          projected = ones_tensor 3 (size_lo cfg) (size_lo cfg)
      in projected[1 := projected_chrm_a, 2 := projected_chrm_b,
                   0 := pmap (\<lambda>x. fl (x / 100)) (luminance_64 self)])"

definition loss_coupled_tv ::
  "('p, 'o, 'g) collab \<Rightarrow> 'p loria \<Rightarrow> image \<Rightarrow> real \<Rightarrow> real" where
  "loss_coupled_tv cfg self out' gamma =
     (let lum = [pmap (\<lambda>x. x / 100) (luminance_256 self)];
          ab = [out' ! 1, out' ! 2];
          dl_h = tmap (\<lambda>x. gamma * x) (tpow2 (tsub (cols_from1 lum) (cols_to_last lum)));
          dl_w = tmap (\<lambda>x. gamma * x) (tpow2 (tsub (rows_from1 lum) (rows_to_last lum)));
          dab_h = tpow2 (tsub (cols_from1 ab) (cols_to_last ab));
          dab_w = tpow2 (tsub (rows_from1 ab) (rows_to_last ab));
          epsilon = 0.00001;
          tv_c = 0.000005 *
            tsum (tmap sqrt
              (tadd (tadd (tadd (tmap (\<lambda>x. epsilon + x) (rows_to_last dl_h))
                                (cols_to_last dl_w))
                          (rows_to_last dab_h))
                    (cols_to_last dab_w)));
          l2 = loss_fn (downsampler cfg out') (target_dip self);
          loss_lum = loss_fn [out' ! 0] [pmap (\<lambda>x. x / 100) (luminance_256 self)]
      in l2 + loss_lum + tv_c)"

text \<open>
  The constructor. \<open>get_initialized_image\<close> reads \<open>ones\<close>, \<open>proba_distrib\<close> and
  \<open>luminance_64\<close> of the object under construction, whose \<open>target_dip\<close> does not exist yet.
\<close>

definition loria_init ::
  "('p, 'o, 'g) collab \<Rightarrow> 'p \<Rightarrow> real ndarray \<Rightarrow> error + 'p loria" where
  "loria_init cfg net0 black_image =
     (case eccv_init cfg black_image of
        Inl e \<Rightarrow> Inl e
      | Inr e \<Rightarrow>
          (let self = eccv_image.extend e
                 \<lparr>ones = ones_tensor (n_bins cfg) (size_lo cfg) (size_lo cfg),
                  params = net0, target_dip = [], out = None\<rparr>
           in Inr (self\<lparr>target_dip := get_initialized_image cfg self\<rparr>)))"

subsection \<open>The optimization loop\<close>

text \<open>
  \<open>closure\<close> stores the network's output and returns, with the new object, the gradient
  that \<open>total_loss.backward\<close> leaves in the parameters: the gradient of the loss of the
  network's output, as a function of the parameters.
\<close>

definition closure :: "('p, 'o, 'g) collab \<Rightarrow> nat \<Rightarrow> 'p loria \<Rightarrow> 'p loria \<times> 'g" where
  "closure cfg num_iter_active self =
     (let self' = self\<lparr>out := Some (dip_net cfg (params self))\<rparr>
      in (self', backward cfg (\<lambda>p. loss_coupled_tv cfg self' (dip_net cfg p) 100)
                    (params self)))"

definition gradient_step ::
  "('p, 'o, 'g) collab \<Rightarrow> nat \<Rightarrow> 'p loria \<times> 'o \<Rightarrow> 'p loria \<times> 'o" where
  "gradient_step cfg j s =
     (let (self', grad) = closure cfg j (fst s);
          (optimizer', p') = adam_step cfg (snd s) (params self') grad
      in (self'\<lparr>params := p'\<rparr>, optimizer'))"

text \<open>The downsampler cannot be applied to the empty tensor.\<close>

definition reprojection_step ::
  "('p, 'o, 'g) collab \<Rightarrow> 'p loria \<times> 'o \<Rightarrow> error + 'p loria \<times> 'o" where
  "reprojection_step cfg s =
     (case out (fst s) of
        None \<Rightarrow> Inl RuntimeError
      | Some y \<Rightarrow>
          (let new_target = projection_chrom cfg (fst s) (downsampler cfg y);
               new_target' = new_target[0 := pmap (\<lambda>x. x / 100) (luminance_64 (fst s))]
           in Inr ((fst s)\<lparr>target_dip := new_target'\<rparr>, snd s)))"

datatype branch = Gradient | Reprojection

definition branch_of :: "nat \<Rightarrow> branch" where
  "branch_of j = (if j < 800 \<or> j mod 200 \<noteq> 0 then Gradient else Reprojection)"

definition iteration ::
  "('p, 'o, 'g) collab \<Rightarrow> nat \<Rightarrow> 'p loria \<times> 'o \<Rightarrow> error + 'p loria \<times> 'o" where
  "iteration cfg j s =
     (case branch_of j of
        Gradient \<Rightarrow> Inr (gradient_step cfg j s)
      | Reprojection \<Rightarrow> reprojection_step cfg s)"

fun iterations ::
  "('p, 'o, 'g) collab \<Rightarrow> nat list \<Rightarrow> 'p loria \<times> 'o \<Rightarrow> error + 'p loria \<times> 'o" where
  "iterations cfg [] s = Inr s"
| "iterations cfg (j # js) s =
     (case iteration cfg j s of Inl e \<Rightarrow> Inl e | Inr s' \<Rightarrow> iterations cfg js s')"

text \<open>\<open>range(num_iter)\<close> for a Python integer: empty when \<open>num_iter\<close> is not positive.\<close>

definition py_range :: "int \<Rightarrow> nat list" where
  "py_range n = [0..<nat n]"

definition optimize ::
  "('p, 'o, 'g) collab \<Rightarrow> real \<Rightarrow> int \<Rightarrow> 'p loria \<Rightarrow> error + 'p loria" where
  "optimize cfg lr num_iter self =
     (case iterations cfg (py_range num_iter) (self, adam cfg lr) of
        Inl e \<Rightarrow> Inl e
      | Inr s \<Rightarrow> Inr (fst s))"

text \<open>The iterations of a run that take the else branch, and those that take the first.\<close>

definition reprojection_iterations :: "int \<Rightarrow> nat list" where
  "reprojection_iterations num_iter = filter (\<lambda>j. branch_of j = Reprojection) (py_range num_iter)"

definition gradient_iterations :: "int \<Rightarrow> nat list" where
  "gradient_iterations num_iter = filter (\<lambda>j. branch_of j = Gradient) (py_range num_iter)"

section \<open>Notions that the properties are stated with\<close>

text \<open>The squared Euclidean distance of a pair of coefficients to a pair of chrominances.\<close>

definition sq_dist :: "real \<times> real \<Rightarrow> real \<times> real \<Rightarrow> real" where
  "sq_dist c x = (fst c - fst x)\<^sup>2 + (snd c - snd x)\<^sup>2"

text \<open>
  The tensor of distances that \<open>projection_chrom\<close> passes to \<open>torch.argmin\<close>: for every bin the
  map of the squared distances of the pixels to the rescaled coefficients of the bin.
\<close>

definition dist_tensor :: "('p, 'o, 'g) collab \<Rightarrow> 'p loria \<Rightarrow> image \<Rightarrow> image" where
  "dist_tensor cfg self img =
     map2 (\<lambda>pa pb. pmap2 (+) (pmap (\<lambda>x. x\<^sup>2) (pmap2 (-) pa (img ! 1)))
                              (pmap (\<lambda>x. x\<^sup>2) (pmap2 (-) pb (img ! 2))))
       (broadcast_bins (map fst (coefs_to_128 cfg)) (ones self))
       (broadcast_bins (map snd (coefs_to_128 cfg)) (ones self))"

text \<open>The bin that the projection selects at a pixel with chrominance \<open>x\<close>.\<close>

definition nearest_bin :: "('p, 'o, 'g) collab \<Rightarrow> real \<times> real \<Rightarrow> nat" where
  "nearest_bin cfg x = argmin (map (\<lambda>c. sq_dist c x) (coefs_to_128 cfg))"

text \<open>
  The same notions in rounded arithmetic: the rescaled pair of coefficients that the
  projection holds for a bin, the squared distance as the projection computes it, the tensor
  of these distances, and the bin that the projection selects.
\<close>

definition rescaled_rounded :: "(real \<Rightarrow> real) \<Rightarrow> real \<times> real \<Rightarrow> real \<times> real" where
  "rescaled_rounded fl c =
     (fl (fl (0.5 * fl (fst c + 1)) * 1), fl (fl (0.5 * fl (snd c + 1)) * 1))"

definition sq_dist_rounded :: "(real \<Rightarrow> real) \<Rightarrow> real \<times> real \<Rightarrow> real \<times> real \<Rightarrow> real" where
  "sq_dist_rounded fl c x = fl (fl ((fl (fst c - fst x))\<^sup>2) + fl ((fl (snd c - snd x))\<^sup>2))"

definition dist_tensor_rounded ::
  "(real \<Rightarrow> real) \<Rightarrow> ('p, 'o, 'g) collab \<Rightarrow> 'p loria \<Rightarrow> image \<Rightarrow> image" where
  "dist_tensor_rounded fl cfg self img =
     map2 (\<lambda>pa pb. pmap2 (\<lambda>x y. fl (x + y))
                      (pmap (\<lambda>x. fl (x\<^sup>2)) (pmap2 (\<lambda>x y. fl (x - y)) pa (img ! 1)))
                      (pmap (\<lambda>x. fl (x\<^sup>2)) (pmap2 (\<lambda>x y. fl (x - y)) pb (img ! 2))))
       (broadcast_bins_rounded fl (map fst (coefs_to_128_rounded fl cfg)) (ones self))
       (broadcast_bins_rounded fl (map snd (coefs_to_128_rounded fl cfg)) (ones self))"

definition nearest_bin_rounded :: "(real \<Rightarrow> real) \<Rightarrow> ('p, 'o, 'g) collab \<Rightarrow> real \<times> real \<Rightarrow> nat" where
  "nearest_bin_rounded fl cfg x =
     argmin (map (\<lambda>c. sq_dist_rounded fl (rescaled_rounded fl c) x) (COEFS cfg))"

text \<open>A tensor of shape \<open>(1, c, h, w)\<close> with the entry \<open>f k i j\<close> at channel \<open>k\<close>, row \<open>i\<close>, column \<open>j\<close>.\<close>

definition has_entries ::
  "nat \<Rightarrow> nat \<Rightarrow> nat \<Rightarrow> (nat \<Rightarrow> nat \<Rightarrow> nat \<Rightarrow> real) \<Rightarrow> image \<Rightarrow> bool" where
  "has_entries c h w f t \<longleftrightarrow>
     is_image c h w t \<and> (\<forall>k<c. \<forall>i<h. \<forall>j<w. t ! k ! i ! j = f k i j)"

text \<open>
  The mode decode in the words of the specification (4.2), for comparison with
  \<open>get_initialized_image\<close>: \<open>mode[c,h,w] = unnormalize(palette[argmax_bin distribution[:,h,w], c])\<close>,
  with the \<open>unnormalize\<close> of the expectation decode.
\<close>

definition spec_mode_decode :: "('p, 'o, 'g) collab \<Rightarrow> image \<Rightarrow> image" where
  "spec_mode_decode cfg distribution =
     map (\<lambda>col. map (map (\<lambda>k. unnormalize_ab cfg (col (COEFS cfg ! k))))
                   (along_dim1 argmax distribution))
       [fst, snd]"

section \<open>A small configuration\<close>

text \<open>
  Collaborators on small tensors, to evaluate the definitions: three bins, a low resolution
  of \<open>1 x 1\<close> and a high resolution of \<open>2 x 2\<close>. The resize reads the upper left corner of the
  image, the upsampling repeats the pixel. The prior network has one real parameter.
\<close>

definition demo_cfg :: "(real, nat, real) collab" where
  "demo_cfg =
     \<lparr>n_bins = 3, size_lo = 1, size_hi = 2,
      COEFS = [(-1, 0), (0, 0), (1, 1)],
      resize_image = (\<lambda>t (h, w). map (\<lambda>i. map (\<lambda>j. entry t [i, j]) [0..<w]) [0..<h]),
      colorizer = (\<lambda>lum. [[[1 / 4]], [[1 / 2]], [[1 / 4]]]),
      unnormalize_ab = (\<lambda>x. x * 110),
      lab_to_rgb = (\<lambda>t. t),
      upsample = map (\<lambda>p. replicate 2 (replicate 2 (p ! 0 ! 0))),
      dip_net = (\<lambda>p. replicate 3 (replicate 2 (replicate 2 p))),
      downsampler = map (\<lambda>p. [[p ! 0 ! 0]]),
      backward = (\<lambda>f p. f (p + 1) - f p),
      adam = (\<lambda>lr. 0),
      adam_step = (\<lambda>opt p g. (Suc opt, p - g))\<rparr>"

definition demo_image :: "real ndarray" where
  "demo_image = \<lparr>shape = [1, 1], entry = (\<lambda>idx. 51)\<rparr>"

text \<open>An image with detail that the low resolution loses.\<close>

definition demo_image_detail :: "real ndarray" where
  "demo_image_detail = \<lparr>shape = [2, 2], entry = (\<lambda>idx. 51 * (1 + real (idx ! 1)))\<rparr>"

definition demo_self :: "real loria" where
  "demo_self =
     \<lparr>original_bw = scale_ndarray demo_image (100 / 255),
      luminance_256 = [[20, 20], [20, 20]],
      luminance_64 = [[20]],
      proba_distrib = [[[1 / 4]], [[1 / 2]], [[1 / 4]]],
      proba_chrom_norm = [[[[- (1 / 4)]], [[0]], [[1 / 4]]], [[[0]], [[0]], [[1 / 4]]]],
      proba_chrom_unnorm = [[[[- (55 / 2)]], [[0]], [[55 / 2]]], [[[0]], [[0]], [[55 / 2]]]],
      chrom_mean_unnorm = [[[0]], [[55 / 2]]],
      lab_mean_64 = [[[20]], [[0]], [[55 / 2]]],
      rgb_mean = [[[20]], [[0]], [[55 / 2]]],
      output_upsampled = [[[20, 20], [20, 20]], [[0, 0], [0, 0]],
                          [[55 / 2, 55 / 2], [55 / 2, 55 / 2]]],
      ones = [[[1]], [[1]], [[1]]],
      params = 0,
      target_dip = [[[1 / 5]], [[1 / 2]], [[1 / 2]]],
      out = None\<rparr>"

text \<open>A downsampled network output for the small configuration.\<close>

definition demo_out :: image where
  "demo_out = [[[0]], [[2 / 5]], [[3 / 5]]]"

text \<open>
  A number format with two binary places, rounding half up; a downsampled output whose
  entries, like all numbers the projection computes from them, have few binary places; a
  finer palette, and a pixel on its second entry.
\<close>

definition round_quarter :: "real \<Rightarrow> real" where
  "round_quarter x = of_int \<lfloor>4 * x + 1 / 2\<rfloor> / 4"

definition demo_out_dyadic :: image where
  "demo_out_dyadic = [[[0]], [[3 / 8]], [[5 / 8]]]"

definition demo_cfg_fine :: "(real, nat, real) collab" where
  "demo_cfg_fine = demo_cfg\<lparr>COEFS := [(-1, 0), (-1 / 2, 0), (1, 1)]\<rparr>"

definition demo_out_on_palette :: image where
  "demo_out_on_palette = [[[0]], [[1 / 4]], [[1 / 2]]]"

section \<open>The schedule of the optimization loop\<close>

lemma branch_of_Reprojection_iff: "branch_of j = Reprojection \<longleftrightarrow> 800 \<le> j \<and> j mod 200 = 0"
  by (auto simp: branch_of_def)

lemma branch_of_Gradient_iff: "branch_of j = Gradient \<longleftrightarrow> j < 800 \<or> j mod 200 \<noteq> 0"
  by (auto simp: branch_of_def)

lemma set_reprojection_iterations:
  "set (reprojection_iterations n) = {j. int j < n \<and> 800 \<le> j \<and> j mod 200 = 0}"
  by (auto simp: reprojection_iterations_def py_range_def branch_of_Reprojection_iff)

lemma sorted_reprojection_iterations:
  "sorted (reprojection_iterations n) \<and> distinct (reprojection_iterations n)"
  by (simp add: reprojection_iterations_def py_range_def sorted_wrt_filter)

lemma reprojection_iterations_eqI:
  assumes "sorted ys" "distinct ys" "set ys = {j. int j < n \<and> 800 \<le> j \<and> j mod 200 = 0}"
  shows "reprojection_iterations n = ys"
  using assms sorted_reprojection_iterations [of n] set_reprojection_iterations [of n]
  by (metis sorted_distinct_set_unique)

lemma length_gradient_iterations:
  "length (gradient_iterations n) + length (reprojection_iterations n) = nat n"
proof -
  have "(\<lambda>j. branch_of j = Reprojection) = (\<lambda>j. \<not> branch_of j = Gradient)"
    by (auto simp: branch_of_def)
  then show ?thesis
    using sum_length_filter_compl [of "\<lambda>j. branch_of j = Gradient" "py_range n"]
    by (simp add: gradient_iterations_def reprojection_iterations_def py_range_def)
qed

lemma multiple_of_200_cases:
  fixes j :: nat
  assumes "j mod 200 = 0" "800 \<le> j" "j < 1201"
  shows "j = 800 \<or> j = 1000 \<or> j = 1200"
proof -
  from assms(1) obtain k where k: "j = 200 * k"
    by (auto simp: mod_eq_0_iff_dvd)
  with assms(2,3) have "4 \<le> k" "k \<le> 6" by simp_all
  then have "k = 4 \<or> k = 5 \<or> k = 6" by arith
  with k show ?thesis by auto
qed

lemma reprojection_iterations_1000: "reprojection_iterations 1000 = [800]"
proof (rule reprojection_iterations_eqI)
  show "set [800] = {j. int j < 1000 \<and> 800 \<le> j \<and> j mod 200 = 0}"
    using multiple_of_200_cases by fastforce
qed simp_all

lemma reprojection_iterations_1201: "reprojection_iterations 1201 = [800, 1000, 1200]"
proof (rule reprojection_iterations_eqI)
  show "set [800, 1000, 1200] = {j. int j < 1201 \<and> 800 \<le> j \<and> j mod 200 = 0}"
    using multiple_of_200_cases by auto
qed simp_all

text \<open>
  C1, as the loop runs. With \<open>num_iter = 1000\<close> the else branch is taken exactly once, at
  iteration 800, and the 999 other iterations are gradient steps. With \<open>num_iter = 1201\<close> the
  loop variable takes the values 0 to 1200, and the else branch is taken exactly at the
  iterations 800, 1000 and 1200.
\<close>

theorem schedule_1000_and_1201:
  "reprojection_iterations 1000 = [800] \<and> length (gradient_iterations 1000) = 999 \<and>
   reprojection_iterations 1201 = [800, 1000, 1200]"
  using length_gradient_iterations [of 1000] reprojection_iterations_1000
    reprojection_iterations_1201
  by simp

text \<open>
  C1 as the specification states it for \<open>num_iter = 1201\<close> excludes iteration 1200; the loop
  reaches it and takes the else branch there.
\<close>

theorem schedule_1201_reaches_1200:
  "1200 \<in> set (py_range 1201) \<and> branch_of 1200 = Reprojection \<and>
   set (reprojection_iterations 1201) \<noteq> {800, 1000}"
proof -
  have "1200 \<in> set (reprojection_iterations 1201)"
    by (simp add: set_reprojection_iterations)
  then have "set (reprojection_iterations 1201) \<noteq> {800, 1000}"
    by auto
  then show ?thesis
    by (simp add: py_range_def branch_of_def)
qed

section \<open>Selecting the single channel\<close>

text \<open>
  C9, as the function decides. An input with exactly three axes of which one has three
  entries is replaced by its slice at index 0 along the first such axis. Every other input
  is returned unchanged: an input with three axes none of which has three entries, and an
  input whose number of axes is not three, whatever the sizes of its axes.
\<close>

theorem convert_to_single_channel_cases:
  "(ndim img = 3 \<and> shape img ! 0 = 3 \<longrightarrow> convert_to_single_channel img = select img 0 0) \<and>
   (ndim img = 3 \<and> shape img ! 0 \<noteq> 3 \<and> shape img ! 1 = 3 \<longrightarrow>
      convert_to_single_channel img = select img 1 0) \<and>
   (ndim img = 3 \<and> shape img ! 0 \<noteq> 3 \<and> shape img ! 1 \<noteq> 3 \<and> shape img ! 2 = 3 \<longrightarrow>
      convert_to_single_channel img = select img 2 0) \<and>
   (ndim img \<noteq> 3 \<or> (shape img ! 0 \<noteq> 3 \<and> shape img ! 1 \<noteq> 3 \<and> shape img ! 2 \<noteq> 3) \<longrightarrow>
      convert_to_single_channel img = img)"
  by (simp add: convert_to_single_channel_def)

theorem convert_to_single_channel_cases_witness:
  "ndim \<lparr>shape = [2, 3, 3], entry = sum_list\<rparr> = 3 \<and>
   shape \<lparr>shape = [2, 3, 3], entry = sum_list\<rparr> ! 0 \<noteq> 3 \<and>
   shape \<lparr>shape = [2, 3, 3], entry = sum_list\<rparr> ! 1 = 3 \<and>
   convert_to_single_channel \<lparr>shape = [2, 3, 3], entry = sum_list\<rparr> =
     select \<lparr>shape = [2, 3, 3], entry = sum_list\<rparr> 1 0 \<and>
   shape (convert_to_single_channel \<lparr>shape = [2, 3, 3], entry = sum_list\<rparr>) = [2, 3] \<and>
   entry (convert_to_single_channel \<lparr>shape = [2, 3, 3], entry = sum_list\<rparr>) [1, 2] = (3::nat) \<and>
   ndim \<lparr>shape = [3, 2], entry = sum_list\<rparr> \<noteq> 3 \<and>
   convert_to_single_channel \<lparr>shape = [3, 2], entry = sum_list\<rparr> =
     \<lparr>shape = [3, 2], entry = (sum_list :: nat list \<Rightarrow> nat)\<rparr>"
  using convert_to_single_channel_cases [of "\<lparr>shape = [2, 3, 3], entry = sum_list :: nat list \<Rightarrow> nat\<rparr>"]
    convert_to_single_channel_cases [of "\<lparr>shape = [3, 2], entry = sum_list :: nat list \<Rightarrow> nat\<rparr>"]
  by (simp add: ndim_def select_def)

text \<open>
  C9 as the specification states it fails on an input with two axes, the first of three
  entries: it is returned as it is, not as its first slice along that axis.
\<close>

theorem convert_to_single_channel_two_axes:
  "shape \<lparr>shape = [3, 2], entry = sum_list :: nat list \<Rightarrow> nat\<rparr> ! 0 = 3 \<and>
   convert_to_single_channel \<lparr>shape = [3, 2], entry = sum_list :: nat list \<Rightarrow> nat\<rparr>
     \<noteq> select \<lparr>shape = [3, 2], entry = sum_list\<rparr> 0 0"
  by (simp add: convert_to_single_channel_def ndim_def select_def)

section \<open>The preprocessing\<close>

lemma those_broadcast_row_same:
  "list_all2 (\<lambda>r q. length r = length q) v p \<Longrightarrow>
   those (map2 (\<lambda>r q. broadcast_row (length q) r) v p) = Some v"
  by (induction rule: list_all2_induct) (simp_all add: broadcast_row_def)

lemma broadcast_plane_same_shape:
  assumes "is_plane h w p" "is_plane h w v"
  shows "broadcast_plane p v = Some v"
proof -
  from assms have "list_all2 (\<lambda>r q. length r = length q) v p"
    by (simp add: is_plane_def list_all_length list_all2_conv_all_nth)
  from those_broadcast_row_same [OF this] assms show ?thesis
    by (simp add: broadcast_plane_def is_plane_def)
qed

lemma assign_channel0_same_shape:
  assumes "is_image c h w t" "0 < c" "is_plane h w v"
  shows "assign_channel0 t v = Inr (t[0 := v])"
proof -
  from assms(1,2) obtain p ps where t: "t = p # ps" and p: "is_plane h w p"
    by (cases t) (auto simp: is_image_def)
  from broadcast_plane_same_shape [OF p assms(3)] show ?thesis
    by (simp add: assign_channel0_def t)
qed

lemma assign_channel0_Inr:
  assumes "assign_channel0 t v = Inr t'"
  shows "\<exists>p ps b. t = p # ps \<and> broadcast_plane p v = Some b \<and> t' = b # ps"
  using assms by (auto simp: assign_channel0_def split: list.splits option.splits)

text \<open>A map of one row or one column, or a single number, is broadcast into the channel.\<close>

lemma assign_channel0_broadcasts:
  "assign_channel0 [[[1, 2], [3, 4]], [[5, 6], [7, 8]]] [[9]] =
     Inr [[[9, 9], [9, 9]], [[5, 6], [7, 8]]]"
  "assign_channel0 [[[1, 2], [3, 4]]] [[8, 9]] = Inr [[[8, 9], [8, 9]]]"
  "assign_channel0 [[[1, 2], [3, 4]]] [[8], [9]] = Inr [[[8, 8], [9, 9]]]"
  "assign_channel0 [[[1, 2], [3, 4]]] [[7, 8, 9]] = Inl RuntimeError"
  "assign_channel0 [] [[9]] = Inl IndexError"
  by (simp_all add: assign_channel0_def broadcast_plane_def broadcast_row_def)

lemma clip_shape: "is_plane h w p \<Longrightarrow> is_plane h w (clip p lo hi)"
  by (simp add: clip_def pmap_def is_plane_def list_all_length)

text \<open>
  Whenever \<open>process_eccv\<close> returns, channel 0 of the upsampled output is the high-resolution
  luminance broadcast to the shape of the upsampled planes, and the other channels are those
  of the upsampling.
\<close>

lemma process_eccv_upsampled:
  assumes "process_eccv cfg bw lum256 lum64 = Inr e"
  shows "\<exists>p ps b. upsample cfg (lab_mean_64 e) = p # ps \<and>
           broadcast_plane p lum256 = Some b \<and> output_upsampled e = b # ps"
proof -
  from assms obtain u where u: "assign_channel0 (upsample cfg (lab_mean_64 e)) lum256 = Inr u"
    and o: "output_upsampled e = u"
    by (auto simp: process_eccv_def Let_def split: sum.splits)
  from assign_channel0_Inr [OF u] o show ?thesis by simp
qed

text \<open>
  C5. Let the resize return a map of the size it is asked for, and the upsampling return
  three channels of the high resolution for an image of three channels (256 x 256 in the
  source). Then for every input image the constructor of \<open>ECCVImage\<close> returns, and channel 0
  of its upsampled output is the high-resolution luminance, the clipped resize of the
  rescaled input, in place of what the upsampling of the low-resolution estimate produced
  there; the other channels are those of the upsampling.
\<close>

theorem upsampled_luminance_is_luminance_256:
  assumes "\<forall>t sz. is_plane (fst sz) (snd sz) (resize_image cfg t sz)"
    and "\<forall>t. length t = 3 \<longrightarrow> is_image 3 (size_hi cfg) (size_hi cfg) (upsample cfg t)"
  shows "\<exists>e. eccv_init cfg black_image = Inr e \<and>
           luminance_256 e =
             clip (resize_image cfg
                     (scale_ndarray (convert_to_single_channel black_image) (100 / 255))
                     (size_hi cfg, size_hi cfg)) 0 100 \<and>
           is_plane (size_hi cfg) (size_hi cfg) (luminance_256 e) \<and>
           output_upsampled e = (upsample cfg (lab_mean_64 e))[0 := luminance_256 e] \<and>
           output_upsampled e ! 0 = luminance_256 e"
proof -
  let ?norm = "scale_ndarray (convert_to_single_channel black_image) (100 / 255)"
  let ?lum256 = "clip (resize_image cfg ?norm (size_hi cfg, size_hi cfg)) 0 100"
  let ?lum64 = "clip (resize_image cfg ?norm (size_lo cfg, size_lo cfg)) 0 100"
  let ?chrom = "map sum_bins (map (tmap (unnormalize_ab cfg))
                  (einsum_abcd_bn_nbcd (colorizer cfg ?lum256) (COEFS cfg)))"
  let ?lab = "?lum64 # ?chrom"
  have "length ?lab = 3" by (simp add: einsum_abcd_bn_nbcd_def)
  with assms(2) have up: "is_image 3 (size_hi cfg) (size_hi cfg) (upsample cfg ?lab)"
    by blast
  from assms(1) have "is_plane (size_hi cfg) (size_hi cfg)
      (resize_image cfg ?norm (size_hi cfg, size_hi cfg))"
    by (metis fst_conv snd_conv)
  then have lum: "is_plane (size_hi cfg) (size_hi cfg) ?lum256"
    by (rule clip_shape)
  have a: "assign_channel0 (upsample cfg ?lab) ?lum256 = Inr ((upsample cfg ?lab)[0 := ?lum256])"
    by (rule assign_channel0_same_shape [OF up _ lum]) simp
  from up have ne: "upsample cfg ?lab \<noteq> []" by (auto simp: is_image_def)
  show ?thesis
    using a lum ne by (simp add: eccv_init_def process_eccv_def Let_def)
qed

theorem upsampled_luminance_is_luminance_256_witness:
  "(\<forall>t sz. is_plane (fst sz) (snd sz) (resize_image demo_cfg t sz)) \<and>
   (\<exists>e. eccv_init demo_cfg demo_image_detail = Inr e \<and>
      luminance_256 e = [[20, 40], [20, 40]] \<and>
      upsample demo_cfg (lab_mean_64 e) ! 0 = [[20, 20], [20, 20]] \<and>
      output_upsampled e ! 0 = [[20, 40], [20, 40]])"
proof -
  have a: "\<forall>t sz. is_plane (fst sz) (snd sz) (resize_image demo_cfg t sz)"
    by (simp add: demo_cfg_def is_plane_def list_all_length split: prod.splits)
  have b: "\<forall>t. length t = 3 \<longrightarrow>
      is_image 3 (size_hi demo_cfg) (size_hi demo_cfg) (upsample demo_cfg t)"
    by (simp add: demo_cfg_def is_image_def is_plane_def list_all_length)
  have l: "clip (resize_image demo_cfg
                   (scale_ndarray (convert_to_single_channel demo_image_detail) (100 / 255))
                   (size_hi demo_cfg, size_hi demo_cfg)) 0 100 = [[20, 40], [20, 40]]"
    by (simp add: demo_cfg_def demo_image_detail_def clip_def pmap_def eval_nat_numeral
        convert_to_single_channel_def ndim_def scale_ndarray_def)
  from upsampled_luminance_is_luminance_256 [OF a b, of demo_image_detail]
  obtain e where e: "eccv_init demo_cfg demo_image_detail = Inr e"
    and lum: "luminance_256 e = [[20, 40], [20, 40]]"
    and out: "output_upsampled e ! 0 = luminance_256 e"
    unfolding l by blast
  from e have len: "length (lab_mean_64 e) = 3"
    by (auto simp: eccv_init_def process_eccv_def Let_def einsum_abcd_bn_nbcd_def
        split: sum.splits)
  from e have "lab_mean_64 e ! 0 =
      clip (resize_image demo_cfg
              (scale_ndarray (convert_to_single_channel demo_image_detail) (100 / 255))
              (size_lo demo_cfg, size_lo demo_cfg)) 0 100"
    by (auto simp: eccv_init_def process_eccv_def Let_def split: sum.splits)
  also have "\<dots> = [[20]]"
    by (simp add: demo_cfg_def demo_image_detail_def clip_def pmap_def
        convert_to_single_channel_def ndim_def scale_ndarray_def)
  finally have "upsample demo_cfg (lab_mean_64 e) ! 0 = [[20, 20], [20, 20]]"
    using len by (simp add: demo_cfg_def eval_nat_numeral)
  with e lum out a show ?thesis by auto
qed

section \<open>The optimization loop\<close>

lemma iterations_append:
  "iterations cfg (js @ ks) s =
     (case iterations cfg js s of Inl e \<Rightarrow> Inl e | Inr s' \<Rightarrow> iterations cfg ks s')"
  by (induction js arbitrary: s) (auto split: sum.splits)

lemma iterations_Suc:
  "iterations cfg [0..<Suc j] s =
     (case iterations cfg [0..<j] s of Inl e \<Rightarrow> Inl e | Inr s' \<Rightarrow> iteration cfg j s')"
  by (simp add: iterations_append split: sum.splits)

lemma take_py_range: "int j \<le> n \<Longrightarrow> take j (py_range n) = [0..<j]"
  by (simp add: py_range_def)

lemma gradient_step_eq:
  "gradient_step cfg j (self, optimizer) =
     (let r = adam_step cfg optimizer (params self)
                (backward cfg
                   (\<lambda>p. loss_coupled_tv cfg (self\<lparr>out := Some (dip_net cfg (params self))\<rparr>)
                          (dip_net cfg p) 100)
                   (params self))
      in (self\<lparr>out := Some (dip_net cfg (params self)), params := snd r\<rparr>, fst r))"
  by (simp add: gradient_step_def closure_def Let_def split: prod.splits)

lemma iteration_Gradient:
  "branch_of j = Gradient \<Longrightarrow> iteration cfg j s = Inr (gradient_step cfg j s)"
  by (simp add: iteration_def)

lemma iteration_Reprojection:
  "branch_of j = Reprojection \<Longrightarrow> iteration cfg j s = reprojection_step cfg s"
  by (simp add: iteration_def)

lemma out_gradient_step:
  "out (fst (gradient_step cfg j s)) = Some (dip_net cfg (params (fst s)))"
  by (cases s) (simp add: gradient_step_eq Let_def)

lemma target_gradient_step:
  "target_dip (fst (gradient_step cfg j s)) = target_dip (fst s)"
  by (cases s) (simp add: gradient_step_eq Let_def)

lemma reprojection_step_Some:
  "out (fst s) = Some y \<Longrightarrow>
   reprojection_step cfg s =
     Inr ((fst s)\<lparr>target_dip := (projection_chrom cfg (fst s) (downsampler cfg y))
                                   [0 := pmap (\<lambda>x. x / 100) (luminance_64 (fst s))]\<rparr>, snd s)"
  by (simp add: reprojection_step_def Let_def)

lemma iterations_prefix_ok:
  "\<exists>s. iterations cfg [0..<j] s0 = Inr s \<and>
       (0 < j \<longrightarrow> (\<exists>p. out (fst s) = Some (dip_net cfg p)))"
proof (induction j)
  case 0
  show ?case by simp
next
  case (Suc j)
  then obtain s where s: "iterations cfg [0..<j] s0 = Inr s"
    and o: "0 < j \<longrightarrow> (\<exists>p. out (fst s) = Some (dip_net cfg p))"
    by blast
  show ?case
  proof (cases "branch_of j")
    case Gradient
    have "iterations cfg [0..<Suc j] s0 = Inr (gradient_step cfg j s)"
      using s Gradient by (simp add: iterations_Suc iteration_Gradient del: upt_Suc)
    moreover have "\<exists>p. out (fst (gradient_step cfg j s)) = Some (dip_net cfg p)"
      by (subst out_gradient_step) blast
    ultimately show ?thesis by blast
  next
    case Reprojection
    then have "0 < j" by (simp add: branch_of_Reprojection_iff)
    with o obtain p where p: "out (fst s) = Some (dip_net cfg p)" by blast
    have "iterations cfg [0..<Suc j] s0 =
            Inr ((fst s)\<lparr>target_dip :=
                    (projection_chrom cfg (fst s) (downsampler cfg (dip_net cfg p)))
                      [0 := pmap (\<lambda>x. x / 100) (luminance_64 (fst s))]\<rparr>, snd s)"
      using s Reprojection p
      by (simp add: iterations_Suc iteration_Reprojection reprojection_step_Some
          del: upt_Suc)
    moreover have "out ((fst s)\<lparr>target_dip :=
                    (projection_chrom cfg (fst s) (downsampler cfg (dip_net cfg p)))
                      [0 := pmap (\<lambda>x. x / 100) (luminance_64 (fst s))]\<rparr>) =
                   Some (dip_net cfg p)"
      using p by simp
    ultimately show ?thesis by (metis fst_conv)
  qed
qed

lemma target_unchanged_upto_800:
  "iterations cfg [0..<j] s0 = Inr s \<Longrightarrow> j \<le> 800 \<Longrightarrow> target_dip (fst s) = target_dip (fst s0)"
proof (induction j arbitrary: s)
  case 0
  then show ?case by simp
next
  case (Suc j)
  from iterations_prefix_ok [of cfg j s0] obtain s' where s': "iterations cfg [0..<j] s0 = Inr s'"
    by blast
  from Suc.prems(2) have g: "branch_of j = Gradient"
    by (simp add: branch_of_Gradient_iff)
  from Suc.prems(1) s' g have "s = gradient_step cfg j s'"
    by (simp add: iterations_Suc iteration_Gradient del: upt_Suc)
  with Suc.IH [OF s'] Suc.prems(2) show ?case
    by (simp add: target_gradient_step)
qed

text \<open>
  The object that the constructor builds for the small configuration.
\<close>

lemma sum_bins_single: "sum_bins [[[a]], [[b]], [[c]]] = [[a + b + c]]"
  by (simp add: sum_bins_def)

lemma loria_init_demo: "loria_init demo_cfg 0 demo_image = Inr demo_self"
  by (simp add: loria_init_def eccv_init_def process_eccv_def demo_cfg_def assign_channel0_def
        broadcast_plane_def broadcast_row_def clip_def pmap_def tmap_def eval_nat_numeral Let_def demo_self_def demo_image_def
        convert_to_single_channel_def ndim_def scale_ndarray_def einsum_abcd_bn_nbcd_def
        sum_bins_single eccv_image.extend_def get_initialized_image_def coefs_to_128_def
        broadcast_bins_def along_dim1_def gather_dim1_def ones_tensor_def enumerate_eq_zip)

text \<open>
  C2. In a run of \<open>optimize\<close> with \<open>num_iter\<close> iterations, let the iterations before
  \<open>j < num_iter\<close> have led to the object \<open>self\<close> and the optimizer state \<open>optimizer\<close>.
  If \<open>j < 800\<close> or \<open>j mod 200 \<noteq> 0\<close>, iteration \<open>j\<close> stores the network's output, replaces
  the parameters and the optimizer state by one Adam step along the gradient of the loss, and
  changes nothing else: the target stays. Otherwise the stored output is an output of the
  network, and iteration \<open>j\<close> replaces the target by the palette projection of the
  downsampled stored output with channel 0 set to \<open>luminance_64 / 100\<close>, and changes nothing
  else: the parameters and the optimizer state stay.
\<close>

theorem iteration_effect:
  assumes "int j < num_iter"
    and "iterations cfg (take j (py_range num_iter)) (self0, adam cfg lr) = Inr (self, optimizer)"
  shows "(j < 800 \<or> j mod 200 \<noteq> 0 \<longrightarrow>
           (\<exists>optimizer' p'.
              (optimizer', p') =
                adam_step cfg optimizer (params self)
                  (backward cfg
                     (\<lambda>p. loss_coupled_tv cfg (self\<lparr>out := Some (dip_net cfg (params self))\<rparr>)
                            (dip_net cfg p) 100)
                     (params self)) \<and>
              iterations cfg (take (Suc j) (py_range num_iter)) (self0, adam cfg lr) =
                Inr (self\<lparr>out := Some (dip_net cfg (params self)), params := p'\<rparr>, optimizer') \<and>
              target_dip (self\<lparr>out := Some (dip_net cfg (params self)), params := p'\<rparr>) =
                target_dip self)) \<and>
         (\<not> (j < 800 \<or> j mod 200 \<noteq> 0) \<longrightarrow>
           (\<exists>p. out self = Some (dip_net cfg p) \<and>
              iterations cfg (take (Suc j) (py_range num_iter)) (self0, adam cfg lr) =
                Inr (self\<lparr>target_dip :=
                             (projection_chrom cfg self (downsampler cfg (dip_net cfg p)))
                               [0 := pmap (\<lambda>x. x / 100) (luminance_64 self)]\<rparr>,
                     optimizer) \<and>
              params (self\<lparr>target_dip :=
                             (projection_chrom cfg self (downsampler cfg (dip_net cfg p)))
                               [0 := pmap (\<lambda>x. x / 100) (luminance_64 self)]\<rparr>) = params self))"
proof -
  from assms(1) have t: "take j (py_range num_iter) = [0..<j]"
    "take (Suc j) (py_range num_iter) = [0..<Suc j]"
    by (simp_all add: take_py_range del: upt_Suc)
  from assms(2) have s: "iterations cfg [0..<j] (self0, adam cfg lr) = Inr (self, optimizer)"
    by (simp only: t)
  show ?thesis
  proof (cases "branch_of j")
    case Gradient
    then have c: "j < 800 \<or> j mod 200 \<noteq> 0"
      by (simp add: branch_of_Gradient_iff)
    have "iterations cfg [0..<Suc j] (self0, adam cfg lr) =
            Inr (gradient_step cfg j (self, optimizer))"
      using s Gradient by (simp add: iterations_Suc iteration_Gradient del: upt_Suc)
    then have "iterations cfg [0..<Suc j] (self0, adam cfg lr) =
            Inr (self\<lparr>out := Some (dip_net cfg (params self)),
                      params := snd (adam_step cfg optimizer (params self)
                  (backward cfg
                     (\<lambda>p. loss_coupled_tv cfg (self\<lparr>out := Some (dip_net cfg (params self))\<rparr>)
                            (dip_net cfg p) 100)
                     (params self)))\<rparr>,
                 fst (adam_step cfg optimizer (params self)
                  (backward cfg
                     (\<lambda>p. loss_coupled_tv cfg (self\<lparr>out := Some (dip_net cfg (params self))\<rparr>)
                            (dip_net cfg p) 100)
                     (params self))))"
      by (simp only: gradient_step_eq Let_def)
    then show ?thesis
      using c unfolding t
      by (intro conjI impI exI [of _ "fst (adam_step cfg optimizer (params self)
                  (backward cfg
                     (\<lambda>p. loss_coupled_tv cfg (self\<lparr>out := Some (dip_net cfg (params self))\<rparr>)
                            (dip_net cfg p) 100)
                     (params self)))"]
                 exI [of _ "snd (adam_step cfg optimizer (params self)
                  (backward cfg
                     (\<lambda>p. loss_coupled_tv cfg (self\<lparr>out := Some (dip_net cfg (params self))\<rparr>)
                            (dip_net cfg p) 100)
                     (params self)))"]) simp_all
  next
    case Reprojection
    then have c: "\<not> (j < 800 \<or> j mod 200 \<noteq> 0)"
      by (simp add: branch_of_Reprojection_iff)
    then have "0 < j" by simp
    with iterations_prefix_ok [of cfg j "(self0, adam cfg lr)"] s
    obtain p where p: "out self = Some (dip_net cfg p)" by auto
    have "iterations cfg [0..<Suc j] (self0, adam cfg lr) =
            Inr (self\<lparr>target_dip :=
                         (projection_chrom cfg self (downsampler cfg (dip_net cfg p)))
                           [0 := pmap (\<lambda>x. x / 100) (luminance_64 self)]\<rparr>, optimizer)"
      using s Reprojection p
      by (simp add: iterations_Suc iteration_Reprojection reprojection_step_Some del: upt_Suc)
    then show ?thesis
      using c p unfolding t by (intro conjI impI exI [of _ p]) simp_all
  qed
qed


theorem iteration_effect_witness:
  "int 0 < 1 \<and>
   iterations demo_cfg (take 0 (py_range 1)) (demo_self, adam demo_cfg 1) =
     Inr (demo_self, adam demo_cfg 1) \<and>
   (\<exists>optimizer' p'.
      (optimizer', p') =
        adam_step demo_cfg (adam demo_cfg 1) (params demo_self)
          (backward demo_cfg
             (\<lambda>p. loss_coupled_tv demo_cfg
                    (demo_self\<lparr>out := Some (dip_net demo_cfg (params demo_self))\<rparr>)
                    (dip_net demo_cfg p) 100)
             (params demo_self)) \<and>
      iterations demo_cfg (take (Suc 0) (py_range 1)) (demo_self, adam demo_cfg 1) =
        Inr (demo_self\<lparr>out := Some (dip_net demo_cfg (params demo_self)), params := p'\<rparr>,
             optimizer') \<and>
      target_dip (demo_self\<lparr>out := Some (dip_net demo_cfg (params demo_self)), params := p'\<rparr>) =
        [[[1 / 5]], [[1 / 2]], [[1 / 2]]]) \<and>
   int 800 < 1000 \<and> \<not> (800 < (800 :: nat) \<or> 800 mod 200 \<noteq> (0 :: nat)) \<and>
   iterations demo_cfg (take 800 (py_range 1000)) (demo_self, adam demo_cfg 1) =
     Inr (projr (iterations demo_cfg (take 800 (py_range 1000)) (demo_self, adam demo_cfg 1))) \<and>
   (\<exists>p. out (fst (projr (iterations demo_cfg (take 800 (py_range 1000))
                          (demo_self, adam demo_cfg 1)))) =
          Some (dip_net demo_cfg p))"
proof -
  have a: "int 0 < 1" by simp
  have b: "iterations demo_cfg (take 0 (py_range 1)) (demo_self, adam demo_cfg 1) =
     Inr (demo_self, adam demo_cfg 1)" by simp
  have c: "target_dip demo_self = [[[1 / 5]], [[1 / 2]], [[1 / 2]]]"
    by (simp add: demo_self_def)
  have d: "int 800 < 1000" by simp
  have e: "\<not> (800 < (800 :: nat) \<or> 800 mod 200 \<noteq> (0 :: nat))" by simp
  have "take 800 (py_range 1000) = [0..<800]"
    by (rule take_py_range) simp
  with iterations_prefix_ok [of demo_cfg 800 "(demo_self, adam demo_cfg 1)"]
  obtain s where s: "iterations demo_cfg (take 800 (py_range 1000)) (demo_self, adam demo_cfg 1) =
     Inr s" by metis
  then have f: "iterations demo_cfg (take 800 (py_range 1000)) (demo_self, adam demo_cfg 1) =
     Inr (fst (projr (iterations demo_cfg (take 800 (py_range 1000))
                        (demo_self, adam demo_cfg 1))),
          snd (projr (iterations demo_cfg (take 800 (py_range 1000))
                        (demo_self, adam demo_cfg 1))))"
    by simp
  from iteration_effect [OF d f] e
  have g: "\<exists>p. out (fst (projr (iterations demo_cfg (take 800 (py_range 1000))
                          (demo_self, adam demo_cfg 1)))) =
          Some (dip_net demo_cfg p)"
    by blast
  from iteration_effect [OF a b] c
  have h: "\<exists>optimizer' p'.
      (optimizer', p') =
        adam_step demo_cfg (adam demo_cfg 1) (params demo_self)
          (backward demo_cfg
             (\<lambda>p. loss_coupled_tv demo_cfg
                    (demo_self\<lparr>out := Some (dip_net demo_cfg (params demo_self))\<rparr>)
                    (dip_net demo_cfg p) 100)
             (params demo_self)) \<and>
      iterations demo_cfg (take (Suc 0) (py_range 1)) (demo_self, adam demo_cfg 1) =
        Inr (demo_self\<lparr>out := Some (dip_net demo_cfg (params demo_self)), params := p'\<rparr>,
             optimizer') \<and>
      target_dip (demo_self\<lparr>out := Some (dip_net demo_cfg (params demo_self)), params := p'\<rparr>) =
        [[[1 / 5]], [[1 / 2]], [[1 / 2]]]"
    by simp
  from s have i: "iterations demo_cfg (take 800 (py_range 1000)) (demo_self, adam demo_cfg 1) =
     Inr (projr (iterations demo_cfg (take 800 (py_range 1000)) (demo_self, adam demo_cfg 1)))"
    by simp
  show ?thesis
    using a b d e g h i by blast
qed

text \<open>
  C10. A run of \<open>optimize\<close> never fails, also from the object as constructed, whose \<open>out\<close>
  is the empty tensor. Every iteration that re-projects has an index of at least 800, the
  iterations 0 to 799 are gradient steps, and the output that the re-projection downsamples
  is an output of the network. A run of at most 800 iterations never re-projects and leaves
  the target as it was.
\<close>

theorem reprojection_reads_network_output:
  "(\<exists>s. iterations cfg (py_range num_iter) (self0, adam cfg lr) = Inr s) \<and>
   (\<forall>j. int j < num_iter \<and> branch_of j = Reprojection \<longrightarrow>
      800 \<le> j \<and> (\<forall>i<800. branch_of i = Gradient) \<and>
      (\<exists>self optimizer p.
         iterations cfg (take j (py_range num_iter)) (self0, adam cfg lr) = Inr (self, optimizer) \<and>
         out self = Some (dip_net cfg p))) \<and>
   (num_iter \<le> 800 \<longrightarrow>
      reprojection_iterations num_iter = [] \<and>
      (\<exists>self. optimize cfg lr num_iter self0 = Inr self \<and> target_dip self = target_dip self0))"
proof (intro conjI allI impI)
  show "\<exists>s. iterations cfg (py_range num_iter) (self0, adam cfg lr) = Inr s"
    using iterations_prefix_ok [of cfg "nat num_iter" "(self0, adam cfg lr)"]
    unfolding py_range_def by blast
next
  fix j
  assume j: "int j < num_iter \<and> branch_of j = Reprojection"
  then show "800 \<le> j" by (simp add: branch_of_Reprojection_iff)
  then have "0 < j" by simp
  moreover have "take j (py_range num_iter) = [0..<j]"
    using j by (simp add: take_py_range)
  ultimately show "\<exists>self optimizer p.
      iterations cfg (take j (py_range num_iter)) (self0, adam cfg lr) = Inr (self, optimizer) \<and>
      out self = Some (dip_net cfg p)"
    using iterations_prefix_ok [of cfg j "(self0, adam cfg lr)"] by (metis fst_conv surj_pair)
next
  fix j i :: nat
  assume "i < 800"
  then show "branch_of i = Gradient" by (simp add: branch_of_Gradient_iff)
next
  assume n: "num_iter \<le> 800"
  then have "set (reprojection_iterations num_iter) = {}"
    unfolding set_reprojection_iterations by auto
  then show "reprojection_iterations num_iter = []" by simp
  from iterations_prefix_ok [of cfg "nat num_iter" "(self0, adam cfg lr)"]
  obtain s where s: "iterations cfg [0..<nat num_iter] (self0, adam cfg lr) = Inr s"
    by blast
  from n have "nat num_iter \<le> 800" by simp
  from target_unchanged_upto_800 [OF s this] s
  show "\<exists>self. optimize cfg lr num_iter self0 = Inr self \<and> target_dip self = target_dip self0"
    by (simp add: optimize_def py_range_def)
qed

theorem reprojection_reads_network_output_witness:
  "int 800 < 1000 \<and> branch_of 800 = Reprojection \<and>
   (\<exists>self optimizer p.
      iterations demo_cfg (take 800 (py_range 1000)) (demo_self, adam demo_cfg 1) =
        Inr (self, optimizer) \<and>
      out self = Some (dip_net demo_cfg p)) \<and>
   out demo_self = None \<and> (2 :: int) \<le> 800 \<and>
   (\<exists>self. optimize demo_cfg 1 2 demo_self = Inr self \<and>
      target_dip self = [[[1 / 5]], [[1 / 2]], [[1 / 2]]])"
proof -
  have a: "int 800 < 1000 \<and> branch_of 800 = Reprojection"
    by (simp add: branch_of_def)
  have b: "(2 :: int) \<le> 800" by simp
  have c: "target_dip demo_self = [[[1 / 5]], [[1 / 2]], [[1 / 2]]]" "out demo_self = None"
    by (simp_all add: demo_self_def)
  note t = reprojection_reads_network_output [of demo_cfg _ demo_self 1]
  from t [of 1000] a have
    "\<exists>self optimizer p.
      iterations demo_cfg (take 800 (py_range 1000)) (demo_self, adam demo_cfg 1) =
        Inr (self, optimizer) \<and>
      out self = Some (dip_net demo_cfg p)"
    by blast
  moreover from t [of 2] b c have
    "\<exists>self. optimize demo_cfg 1 2 demo_self = Inr self \<and>
      target_dip self = [[[1 / 5]], [[1 / 2]], [[1 / 2]]]"
    by auto
  ultimately show ?thesis using a b c by blast
qed

section \<open>Shapes and entries of the tensor operations\<close>

lemma is_plane_nth: "is_plane h w p \<Longrightarrow> i < h \<Longrightarrow> length (p ! i) = w"
  by (simp add: is_plane_def list_all_length)

lemma is_plane_length: "is_plane h w p \<Longrightarrow> length p = h"
  by (simp add: is_plane_def)

lemma is_image_nth: "is_image c h w t \<Longrightarrow> k < c \<Longrightarrow> is_plane h w (t ! k)"
  by (simp add: is_image_def list_all_length)

lemma is_image_length: "is_image c h w t \<Longrightarrow> length t = c"
  by (simp add: is_image_def)

lemma is_planeI: "length p = h \<Longrightarrow> (\<And>i. i < h \<Longrightarrow> length (p ! i) = w) \<Longrightarrow> is_plane h w p"
  by (simp add: is_plane_def list_all_length)

lemma is_imageI: "length t = c \<Longrightarrow> (\<And>k. k < c \<Longrightarrow> is_plane h w (t ! k)) \<Longrightarrow> is_image c h w t"
  by (simp add: is_image_def list_all_length)

lemma hd_plane_length:
  assumes "is_image c h w t" "0 < c" "0 < h"
  shows "length (hd (hd t)) = w" "length (hd t) = h"
proof -
  from assms have "t \<noteq> []" by (auto simp: is_image_def)
  then have "hd t = t ! 0" by (simp add: hd_conv_nth)
  with assms have p: "is_plane h w (hd t)" by (simp add: is_image_nth)
  then show "length (hd t) = h" by (simp add: is_plane_def)
  with assms have "hd t \<noteq> []" by auto
  then have "hd (hd t) = hd t ! 0" by (simp add: hd_conv_nth)
  with p assms show "length (hd (hd t)) = w" by (simp add: is_plane_nth)
qed

lemma sum_bins_nth:
  assumes "is_image c h w t" "0 < c" "i < h" "j < w"
  shows "sum_bins t ! i ! j = (\<Sum>b<c. t ! b ! i ! j)"
proof -
  from assms obtain p ps where t: "t = p # ps" by (cases t) (auto simp: is_image_def)
  from assms have h: "0 < h" by simp
  from hd_plane_length [OF assms(1,2) h] t have l: "length p = h" "length (hd p) = w" by simp_all
  have "sum_bins t ! i ! j = (\<Sum>q\<leftarrow>t. q ! i ! j)"
    using assms l unfolding sum_bins_def t by simp
  also have "\<dots> = (\<Sum>b = 0..<length t. t ! b ! i ! j)"
    by (simp add: sum_list_sum_nth)
  finally show ?thesis using assms(1) by (simp add: is_image_def atLeast0LessThan)
qed

lemma sum_bins_shape:
  assumes "is_image c h w t" "0 < c"
  shows "is_plane h w (sum_bins t)"
proof (cases "h = 0")
  case True
  from assms obtain p ps where t: "t = p # ps" by (cases t) (auto simp: is_image_def)
  with assms True have "length p = 0" by (auto simp: is_image_def is_plane_def)
  then show ?thesis using True by (simp add: sum_bins_def t is_plane_def)
next
  case False
  from assms obtain p ps where t: "t = p # ps" by (cases t) (auto simp: is_image_def)
  from False hd_plane_length [OF assms] t have l: "length p = h" "length (hd p) = w" by simp_all
  then show ?thesis by (simp add: sum_bins_def t is_plane_def list_all_length)
qed

lemma pmap_nth: "i < length p \<Longrightarrow> j < length (p ! i) \<Longrightarrow> pmap f p ! i ! j = f (p ! i ! j)"
  by (simp add: pmap_def)

lemma pmap_shape: "is_plane h w p \<Longrightarrow> is_plane h w (pmap f p)"
  by (simp add: pmap_def is_plane_def list_all_length)

lemma tmap_shape: "is_image c h w t \<Longrightarrow> is_image c h w (tmap f t)"
  by (simp add: tmap_def is_image_def list_all_length pmap_shape)

lemma tmap_nth:
  "is_image c h w t \<Longrightarrow> k < c \<Longrightarrow> i < h \<Longrightarrow> j < w \<Longrightarrow> tmap f t ! k ! i ! j = f (t ! k ! i ! j)"
  by (simp add: tmap_def is_image_def is_plane_def list_all_length pmap_nth)

lemma einsum_shape:
  assumes "is_image n h w P" "length C = n" "m < 2"
  shows "is_image n h w (einsum_abcd_bn_nbcd P C ! m)"
proof -
  from assms(3) have "m = 0 \<or> m = 1" by auto
  then show ?thesis
    using assms(1,2)
    by (auto simp: einsum_abcd_bn_nbcd_def is_image_def list_all_length pmap_shape)
qed

lemma einsum_nth:
  assumes "is_image n h w P" "length C = n" "b < n" "i < h" "j < w"
  shows "einsum_abcd_bn_nbcd P C ! 0 ! b ! i ! j = P ! b ! i ! j * fst (C ! b)"
    and "einsum_abcd_bn_nbcd P C ! Suc 0 ! b ! i ! j = P ! b ! i ! j * snd (C ! b)"
  using assms
  by (simp_all add: einsum_abcd_bn_nbcd_def is_image_def is_plane_def list_all_length pmap_nth)

section \<open>The expectation decode\<close>

lemma process_eccv_fields:
  assumes "process_eccv cfg bw lum256 lum64 = Inr e"
  shows "proba_distrib e = colorizer cfg lum256"
    and "chrom_mean_unnorm e =
           map sum_bins (map (tmap (unnormalize_ab cfg))
             (einsum_abcd_bn_nbcd (colorizer cfg lum256) (COEFS cfg)))"
    and "lab_mean_64 e = lum64 # chrom_mean_unnorm e"
    and "luminance_64 e = lum64" and "luminance_256 e = lum256"
  using assms by (auto simp: process_eccv_def Let_def split: sum.splits)

lemma length_einsum: "length (einsum_abcd_bn_nbcd P C) = 2"
  by (simp add: einsum_abcd_bn_nbcd_def)

lemma chrom_mean_unnorm_nth:
  assumes "process_eccv cfg bw lum256 lum64 = Inr e"
    and "is_image n h w (proba_distrib e)" "length (COEFS cfg) = n" "0 < n" "i < h" "j < w"
  shows "chrom_mean_unnorm e ! 0 ! i ! j =
           (\<Sum>b<n. unnormalize_ab cfg (proba_distrib e ! b ! i ! j * fst (COEFS cfg ! b)))"
    and "chrom_mean_unnorm e ! 1 ! i ! j =
           (\<Sum>b<n. unnormalize_ab cfg (proba_distrib e ! b ! i ! j * snd (COEFS cfg ! b)))"
proof -
  let ?P = "colorizer cfg lum256"
  let ?E = "einsum_abcd_bn_nbcd ?P (COEFS cfg)"
  note f = process_eccv_fields [OF assms(1)]
  from assms(2) f have P: "is_image n h w ?P" by simp
  have s: "is_image n h w (?E ! m)" if "m < 2" for m
    using einsum_shape [OF P assms(3) that] .
  have u: "is_image n h w (tmap (unnormalize_ab cfg) (?E ! m))" if "m < 2" for m
    using tmap_shape [OF s [OF that]] .
  have "chrom_mean_unnorm e ! 0 ! i ! j = sum_bins (tmap (unnormalize_ab cfg) (?E ! 0)) ! i ! j"
    by (simp add: f length_einsum)
  also have "\<dots> = (\<Sum>b<n. tmap (unnormalize_ab cfg) (?E ! 0) ! b ! i ! j)"
    by (rule sum_bins_nth [OF u assms(4,5,6)]) simp
  also have "\<dots> = (\<Sum>b<n. unnormalize_ab cfg (?P ! b ! i ! j * fst (COEFS cfg ! b)))"
    by (rule sum.cong) (simp_all add: tmap_nth [OF s] einsum_nth [OF P] assms)
  finally show "chrom_mean_unnorm e ! 0 ! i ! j =
           (\<Sum>b<n. unnormalize_ab cfg (proba_distrib e ! b ! i ! j * fst (COEFS cfg ! b)))"
    by (simp add: f)
  have "chrom_mean_unnorm e ! 1 ! i ! j = sum_bins (tmap (unnormalize_ab cfg) (?E ! 1)) ! i ! j"
    by (simp add: f length_einsum)
  also have "\<dots> = (\<Sum>b<n. tmap (unnormalize_ab cfg) (?E ! 1) ! b ! i ! j)"
    by (rule sum_bins_nth [OF u assms(4,5,6)]) simp
  also have "\<dots> = (\<Sum>b<n. unnormalize_ab cfg (?P ! b ! i ! j * snd (COEFS cfg ! b)))"
    by (rule sum.cong) (simp_all add: tmap_nth [OF s] einsum_nth [OF P] assms)
  finally show "chrom_mean_unnorm e ! 1 ! i ! j =
           (\<Sum>b<n. unnormalize_ab cfg (proba_distrib e ! b ! i ! j * snd (COEFS cfg ! b)))"
    by (simp add: f)
qed

text \<open>
  C8. \<open>process_eccv\<close> multiplies the distribution by the palette coefficients, unnormalizes
  the products and sums them over the bins. \<open>BaseColor.unnormalize_ab\<close> is not part of the
  source file; for one that commutes with the multiplication by a weight, as a scaling by a
  constant does, the mean chrominance at every channel and pixel is the sum over the bins of
  the probability times the unnormalized palette coefficient.
\<close>

theorem chrom_mean_is_expectation:
  assumes "\<forall>p x. unnormalize_ab cfg (p * x) = p * unnormalize_ab cfg x"
    and "process_eccv cfg bw lum256 lum64 = Inr e"
    and "is_image n h w (proba_distrib e)" "length (COEFS cfg) = n" "0 < n" "i < h" "j < w"
  shows "length (chrom_mean_unnorm e) = 2 \<and>
         chrom_mean_unnorm e ! 0 ! i ! j =
           (\<Sum>b<n. proba_distrib e ! b ! i ! j * unnormalize_ab cfg (fst (COEFS cfg ! b))) \<and>
         chrom_mean_unnorm e ! 1 ! i ! j =
           (\<Sum>b<n. proba_distrib e ! b ! i ! j * unnormalize_ab cfg (snd (COEFS cfg ! b)))"
  using chrom_mean_unnorm_nth [OF assms(2-7)] assms(1)
  by (simp add: process_eccv_fields [OF assms(2)] length_einsum)

theorem chrom_mean_is_expectation_witness:
  "(\<forall>p x. unnormalize_ab demo_cfg (p * x) = p * unnormalize_ab demo_cfg x) \<and>
   process_eccv demo_cfg (scale_ndarray demo_image (100 / 255)) [[20, 20], [20, 20]] [[20]] =
     Inr (eccv_image.truncate demo_self) \<and>
   is_image 3 1 1 (proba_distrib (eccv_image.truncate demo_self)) \<and>
   length (COEFS demo_cfg) = 3 \<and>
   chrom_mean_unnorm (eccv_image.truncate demo_self) ! 1 ! 0 ! 0 = 55 / 2 \<and>
   (\<Sum>b<3. proba_distrib (eccv_image.truncate demo_self) ! b ! 0 ! 0 *
            unnormalize_ab demo_cfg (snd (COEFS demo_cfg ! b))) = 55 / 2"
proof -
  have a: "\<forall>p x. unnormalize_ab demo_cfg (p * x) = p * unnormalize_ab demo_cfg x"
    by (simp add: demo_cfg_def)
  have b: "process_eccv demo_cfg (scale_ndarray demo_image (100 / 255)) [[20, 20], [20, 20]] [[20]] =
     Inr (eccv_image.truncate demo_self)"
    by (simp add: process_eccv_def demo_cfg_def assign_channel0_def broadcast_plane_def
        broadcast_row_def tmap_def pmap_def
        eval_nat_numeral Let_def demo_self_def einsum_abcd_bn_nbcd_def sum_bins_single
        eccv_image.truncate_def)
  have c: "is_image 3 1 1 (proba_distrib (eccv_image.truncate demo_self))"
    by (simp add: demo_self_def eccv_image.truncate_def is_image_def is_plane_def)
  have d: "length (COEFS demo_cfg) = 3" by (simp add: demo_cfg_def)
  have e: "chrom_mean_unnorm (eccv_image.truncate demo_self) ! 1 ! 0 ! 0 = 55 / 2"
    by (simp add: demo_self_def eccv_image.truncate_def)
  from chrom_mean_is_expectation [OF a b c d, of 0 0] e
  show ?thesis using a b c d by simp
qed

section \<open>First minimal and first maximal index\<close>

lemma argmin_less: "xs \<noteq> [] \<Longrightarrow> argmin xs < length xs"
  by (induction xs rule: argmin.induct) (auto simp: Let_def)

lemma argmin_le: "k < length xs \<Longrightarrow> xs ! argmin xs \<le> xs ! k"
proof (induction xs arbitrary: k rule: argmin.induct)
  case 1
  then show ?case by simp
next
  case (2 x)
  then show ?case by simp
next
  case (3 x y ys)
  show ?case
  proof (cases k)
    case 0
    then show ?thesis by (auto simp: Let_def)
  next
    case (Suc k')
    with "3.prems" have "k' < length (y # ys)" by simp
    from "3.IH" [OF this] Suc show ?thesis
      by (auto simp: Let_def)
  qed
qed

lemma argmin_first: "k < argmin xs \<Longrightarrow> xs ! argmin xs < xs ! k"
proof (induction xs arbitrary: k rule: argmin.induct)
  case 1
  then show ?case by simp
next
  case (2 x)
  then show ?case by simp
next
  case (3 x y ys)
  from "3.prems" have s: "argmin (x # y # ys) = Suc (argmin (y # ys))"
    and n: "\<not> x \<le> (y # ys) ! argmin (y # ys)"
    by (auto simp: Let_def split: if_splits)
  show ?case
  proof (cases k)
    case 0
    with s n show ?thesis by simp
  next
    case (Suc k')
    with "3.prems" s have "k' < argmin (y # ys)" by simp
    from "3.IH" [OF this] Suc s show ?thesis by simp
  qed
qed

lemma argmax_less: "xs \<noteq> [] \<Longrightarrow> argmax xs < length xs"
  by (induction xs rule: argmax.induct) (auto simp: Let_def)

lemma argmax_ge: "k < length xs \<Longrightarrow> xs ! k \<le> xs ! argmax xs"
proof (induction xs arbitrary: k rule: argmax.induct)
  case 1
  then show ?case by simp
next
  case (2 x)
  then show ?case by simp
next
  case (3 x y ys)
  show ?case
  proof (cases k)
    case 0
    then show ?thesis by (auto simp: Let_def)
  next
    case (Suc k')
    with "3.prems" have "k' < length (y # ys)" by simp
    from "3.IH" [OF this] Suc show ?thesis
      by (auto simp: Let_def)
  qed
qed

lemma argmax_first: "k < argmax xs \<Longrightarrow> xs ! k < xs ! argmax xs"
proof (induction xs arbitrary: k rule: argmax.induct)
  case 1
  then show ?case by simp
next
  case (2 x)
  then show ?case by simp
next
  case (3 x y ys)
  from "3.prems" have s: "argmax (x # y # ys) = Suc (argmax (y # ys))"
    and n: "\<not> (y # ys) ! argmax (y # ys) \<le> x"
    by (auto simp: Let_def split: if_splits)
  show ?case
  proof (cases k)
    case 0
    with s n show ?thesis by simp
  next
    case (Suc k')
    with "3.prems" s have "k' < argmax (y # ys)" by simp
    from "3.IH" [OF this] Suc s show ?thesis by simp
  qed
qed

lemma along_dim1_nth:
  assumes "is_image n h w t" "0 < n" "i < h" "j < w"
  shows "along_dim1 arg t ! i ! j = arg (map (\<lambda>q. q ! i ! j) t)"
proof -
  from assms obtain p ps where t: "t = p # ps" by (cases t) (auto simp: is_image_def)
  from assms have "0 < h" by simp
  from hd_plane_length [OF assms(1,2) this] t have "length p = h" "length (hd p) = w"
    by simp_all
  then show ?thesis using assms(3,4) unfolding along_dim1_def t by simp
qed

lemma along_dim1_shape:
  assumes "is_image n h w t" "0 < n" "i < h"
  shows "length (along_dim1 arg t) = h" "length (along_dim1 arg t ! i) = w"
proof -
  from assms obtain p ps where t: "t = p # ps" by (cases t) (auto simp: is_image_def)
  from assms have "0 < h" by simp
  from hd_plane_length [OF assms(1,2) this] t have l: "length p = h" "length (hd p) = w"
    by simp_all
  then show "length (along_dim1 arg t) = h" unfolding along_dim1_def t by simp
  from l show "length (along_dim1 arg t ! i) = w" using assms(3) unfolding along_dim1_def t by simp
qed

lemma along_dim1_length:
  assumes "is_image n h w t" "0 < n"
  shows "length (along_dim1 arg t) = h"
proof -
  from assms obtain p ps where t: "t = p # ps" by (cases t) (auto simp: is_image_def)
  with assms have "length p = h" by (auto simp: is_image_def is_plane_def)
  then show ?thesis unfolding along_dim1_def t by simp
qed

lemma gather_dim1_nth:
  "i < length ind \<Longrightarrow> j < length (ind ! i) \<Longrightarrow>
   gather_dim1 t ind ! i ! j = t ! (ind ! i ! j) ! 0 ! j"
  by (simp add: gather_dim1_def nth_enumerate_eq)

lemma gather_dim1_shape:
  "length (gather_dim1 t ind) = length ind"
  "i < length ind \<Longrightarrow> length (gather_dim1 t ind ! i) = length (ind ! i)"
  by (simp_all add: gather_dim1_def)

lemma broadcast_bins_nth:
  "length v = n \<Longrightarrow> k < n \<Longrightarrow> i < h \<Longrightarrow> j < w \<Longrightarrow>
   broadcast_bins v (ones_tensor n h w) ! k ! i ! j = v ! k"
  by (simp add: broadcast_bins_def ones_tensor_def pmap_def)

lemma broadcast_bins_shape:
  "length v = n \<Longrightarrow> is_image n h w (broadcast_bins v (ones_tensor n h w))"
  by (simp add: broadcast_bins_def ones_tensor_def pmap_def is_image_def is_plane_def
      list_all_length)

lemma pmap2_nth:
  "is_plane h w p \<Longrightarrow> is_plane h w q \<Longrightarrow> i < h \<Longrightarrow> j < w \<Longrightarrow>
   pmap2 f p q ! i ! j = f (p ! i ! j) (q ! i ! j)"
  by (simp add: pmap2_def is_plane_def list_all_length)

lemma pmap2_shape:
  "is_plane h w p \<Longrightarrow> is_plane h w q \<Longrightarrow> is_plane h w (pmap2 f p q)"
  by (simp add: pmap2_def is_plane_def list_all_length)

lemma pmap_nth': "is_plane h w p \<Longrightarrow> i < h \<Longrightarrow> j < w \<Longrightarrow> pmap f p ! i ! j = f (p ! i ! j)"
  by (simp add: pmap_def is_plane_def list_all_length)

lemma ones_tensor_channels: "(ones_tensor 3 h w)[Suc 0 := x, 2 := y, 0 := z] = [z, x, y]"
  by (simp add: ones_tensor_def eval_nat_numeral)

lemma length_coefs_to_128: "length (coefs_to_128 cfg) = length (COEFS cfg)"
  by (simp add: coefs_to_128_def)

lemma coefs_to_128_nth:
  "k < length (COEFS cfg) \<Longrightarrow>
   coefs_to_128 cfg ! k = (0.5 * (fst (COEFS cfg ! k) + 1), 0.5 * (snd (COEFS cfg ! k) + 1))"
  by (simp add: coefs_to_128_def split: prod.splits)

text \<open>Gathering from a broadcast vector picks the entry of the vector.\<close>

lemma gather_broadcast_nth:
  assumes "length v = n" "length ind = h" "length (ind ! i) = w" "ind ! i ! j < n" "i < h" "j < w"
  shows "gather_dim1 (broadcast_bins v (ones_tensor n h w)) ind ! i ! j = v ! (ind ! i ! j)"
proof -
  from assms have "0 < h" by simp
  with assms show ?thesis
    by (simp add: gather_dim1_nth broadcast_bins_nth)
qed


section \<open>The palette projection\<close>

lemma projection_chrom_eq:
  "projection_chrom cfg self img =
     [pmap (\<lambda>x. x / 100) (luminance_64 self),
      gather_dim1 (broadcast_bins (map fst (coefs_to_128 cfg)) (ones self))
        (along_dim1 argmin (dist_tensor cfg self img)),
      gather_dim1 (broadcast_bins (map snd (coefs_to_128 cfg)) (ones self))
        (along_dim1 argmin (dist_tensor cfg self img))]"
  by (simp add: projection_chrom_def Let_def ones_tensor_channels dist_tensor_def)

lemma dist_tensor_shape:
  assumes "ones self = ones_tensor n h w" "length (COEFS cfg) = n"
    "is_plane h w (img ! 1)" "is_plane h w (img ! 2)"
  shows "is_image n h w (dist_tensor cfg self img)"
proof (rule is_imageI)
  show "length (dist_tensor cfg self img) = n"
    using assms(1,2)
    by (simp add: dist_tensor_def broadcast_bins_def ones_tensor_def length_coefs_to_128)
next
  fix k assume k: "k < n"
  have a: "is_plane h w (broadcast_bins (map fst (coefs_to_128 cfg)) (ones self) ! k)"
    using is_image_nth [OF broadcast_bins_shape k, of "map fst (coefs_to_128 cfg)" h w] assms(1,2)
    by (simp add: length_coefs_to_128)
  have b: "is_plane h w (broadcast_bins (map snd (coefs_to_128 cfg)) (ones self) ! k)"
    using is_image_nth [OF broadcast_bins_shape k, of "map snd (coefs_to_128 cfg)" h w] assms(1,2)
    by (simp add: length_coefs_to_128)
  have l: "length (broadcast_bins (map fst (coefs_to_128 cfg)) (ones self)) = n"
    "length (broadcast_bins (map snd (coefs_to_128 cfg)) (ones self)) = n"
    using assms(1,2)
    by (simp_all add: broadcast_bins_def ones_tensor_def length_coefs_to_128)
  show "is_plane h w (dist_tensor cfg self img ! k)"
    using k l a b assms(3,4)
    by (simp add: dist_tensor_def pmap2_shape pmap_shape)
qed

lemma dist_tensor_nth:
  assumes "ones self = ones_tensor n h w" "length (COEFS cfg) = n"
    "is_plane h w (img ! 1)" "is_plane h w (img ! 2)" "k < n" "i < h" "j < w"
  shows "dist_tensor cfg self img ! k ! i ! j =
           sq_dist (coefs_to_128 cfg ! k) (img ! 1 ! i ! j, img ! 2 ! i ! j)"
proof -
  let ?A = "broadcast_bins (map fst (coefs_to_128 cfg)) (ones self)"
  let ?B = "broadcast_bins (map snd (coefs_to_128 cfg)) (ones self)"
  have a: "is_plane h w (?A ! k)"
    using is_image_nth [OF broadcast_bins_shape assms(5), of "map fst (coefs_to_128 cfg)" h w]
      assms(1,2)
    by (simp add: length_coefs_to_128)
  have b: "is_plane h w (?B ! k)"
    using is_image_nth [OF broadcast_bins_shape assms(5), of "map snd (coefs_to_128 cfg)" h w]
      assms(1,2)
    by (simp add: length_coefs_to_128)
  have l: "length ?A = n" "length ?B = n"
    using assms(1,2)
    by (simp_all add: broadcast_bins_def ones_tensor_def length_coefs_to_128)
  have va: "?A ! k ! i ! j = fst (coefs_to_128 cfg ! k)"
    using assms by (simp add: broadcast_bins_nth length_coefs_to_128)
  have vb: "?B ! k ! i ! j = snd (coefs_to_128 cfg ! k)"
    using assms by (simp add: broadcast_bins_nth length_coefs_to_128)
  have "dist_tensor cfg self img ! k =
          pmap2 (+) (pmap (\<lambda>x. x\<^sup>2) (pmap2 (-) (?A ! k) (img ! 1)))
                    (pmap (\<lambda>x. x\<^sup>2) (pmap2 (-) (?B ! k) (img ! 2)))"
    using l assms(5) by (simp add: dist_tensor_def)
  also have "\<dots> ! i ! j = (?A ! k ! i ! j - img ! 1 ! i ! j)\<^sup>2 + (?B ! k ! i ! j - img ! 2 ! i ! j)\<^sup>2"
    using a b assms(3,4,6,7)
    by (simp add: pmap2_nth [of h w] pmap_nth' [of h w] pmap2_shape pmap_shape)
  finally show ?thesis
    by (simp add: va vb sq_dist_def)
qed

lemma dist_tensor_column:
  assumes "ones self = ones_tensor n h w" "length (COEFS cfg) = n"
    "is_plane h w (img ! 1)" "is_plane h w (img ! 2)" "i < h" "j < w"
  shows "map (\<lambda>q. q ! i ! j) (dist_tensor cfg self img) =
           map (\<lambda>c. sq_dist c (img ! 1 ! i ! j, img ! 2 ! i ! j)) (coefs_to_128 cfg)"
proof (rule nth_equalityI)
  show "length (map (\<lambda>q. q ! i ! j) (dist_tensor cfg self img)) =
        length (map (\<lambda>c. sq_dist c (img ! 1 ! i ! j, img ! 2 ! i ! j)) (coefs_to_128 cfg))"
    using is_image_length [OF dist_tensor_shape [OF assms(1-4)]] assms(2)
    by (simp add: length_coefs_to_128)
next
  fix k assume "k < length (map (\<lambda>q. q ! i ! j) (dist_tensor cfg self img))"
  then have k: "k < n"
    using is_image_length [OF dist_tensor_shape [OF assms(1-4)]] by simp
  then show "map (\<lambda>q. q ! i ! j) (dist_tensor cfg self img) ! k =
        map (\<lambda>c. sq_dist c (img ! 1 ! i ! j, img ! 2 ! i ! j)) (coefs_to_128 cfg) ! k"
    using dist_tensor_nth [OF assms(1-4) k assms(5,6)] assms(2)
      is_image_length [OF dist_tensor_shape [OF assms(1-4)]]
    by (simp add: length_coefs_to_128)
qed

lemma nearest_bin_props:
  assumes "0 < length (COEFS cfg)"
  shows "nearest_bin cfg x < length (COEFS cfg)"
    and "k < length (COEFS cfg) \<Longrightarrow>
           sq_dist (coefs_to_128 cfg ! nearest_bin cfg x) x \<le> sq_dist (coefs_to_128 cfg ! k) x"
    and "k < nearest_bin cfg x \<Longrightarrow>
           sq_dist (coefs_to_128 cfg ! nearest_bin cfg x) x < sq_dist (coefs_to_128 cfg ! k) x"
proof -
  let ?d = "map (\<lambda>c. sq_dist c x) (coefs_to_128 cfg)"
  from assms have "length (coefs_to_128 cfg) \<noteq> 0" by (simp add: length_coefs_to_128)
  then have ne: "?d \<noteq> []" by simp
  from argmin_less [OF ne] show b: "nearest_bin cfg x < length (COEFS cfg)"
    by (simp add: nearest_bin_def length_coefs_to_128)
  show "sq_dist (coefs_to_128 cfg ! nearest_bin cfg x) x \<le> sq_dist (coefs_to_128 cfg ! k) x"
    if "k < length (COEFS cfg)"
    using argmin_le [of k ?d] that b
    by (simp add: nearest_bin_def length_coefs_to_128)
  show "sq_dist (coefs_to_128 cfg ! nearest_bin cfg x) x < sq_dist (coefs_to_128 cfg ! k) x"
    if "k < nearest_bin cfg x"
    using argmin_first [of k ?d] that b
    by (simp add: nearest_bin_def length_coefs_to_128)
qed

lemma projection_chrom_pixel:
  assumes "ones self = ones_tensor n h w" "length (COEFS cfg) = n" "0 < n"
    "is_plane h w (img ! 1)" "is_plane h w (img ! 2)" "i < h" "j < w"
  shows "projection_chrom cfg self img ! 1 ! i ! j =
           fst (coefs_to_128 cfg ! nearest_bin cfg (img ! 1 ! i ! j, img ! 2 ! i ! j))"
    and "projection_chrom cfg self img ! 2 ! i ! j =
           snd (coefs_to_128 cfg ! nearest_bin cfg (img ! 1 ! i ! j, img ! 2 ! i ! j))"
proof -
  let ?D = "dist_tensor cfg self img"
  let ?I = "along_dim1 argmin ?D"
  let ?K = "nearest_bin cfg (img ! 1 ! i ! j, img ! 2 ! i ! j)"
  note D = dist_tensor_shape [OF assms(1,2,4,5)]
  have I: "?I ! i ! j = ?K"
    using along_dim1_nth [OF D assms(3,6,7)] dist_tensor_column [OF assms(1,2,4,5,6,7)]
    by (simp add: nearest_bin_def)
  have K: "?K < n"
    using nearest_bin_props(1) [of cfg] assms(2,3) by simp
  note sh = along_dim1_shape [OF D assms(3,6)]
  have "gather_dim1 (broadcast_bins (map fst (coefs_to_128 cfg)) (ones_tensor n h w)) ?I ! i ! j =
          map fst (coefs_to_128 cfg) ! (?I ! i ! j)"
    by (rule gather_broadcast_nth) (use sh I K assms in \<open>simp_all add: length_coefs_to_128\<close>)
  then show "projection_chrom cfg self img ! 1 ! i ! j = fst (coefs_to_128 cfg ! ?K)"
    using I K assms(1,2) by (simp add: projection_chrom_eq length_coefs_to_128)
  have "gather_dim1 (broadcast_bins (map snd (coefs_to_128 cfg)) (ones_tensor n h w)) ?I ! i ! j =
          map snd (coefs_to_128 cfg) ! (?I ! i ! j)"
    by (rule gather_broadcast_nth) (use sh I K assms in \<open>simp_all add: length_coefs_to_128\<close>)
  then show "projection_chrom cfg self img ! 2 ! i ! j = snd (coefs_to_128 cfg ! ?K)"
    using I K assms(1,2) by (simp add: projection_chrom_eq length_coefs_to_128)
qed

lemma projection_chrom_shape:
  assumes "ones self = ones_tensor n h w" "length (COEFS cfg) = n" "0 < n"
    "is_plane h w (img ! 1)" "is_plane h w (img ! 2)"
  shows "is_plane h w (projection_chrom cfg self img ! 1)"
    and "is_plane h w (projection_chrom cfg self img ! 2)"
proof -
  let ?D = "dist_tensor cfg self img"
  let ?I = "along_dim1 argmin ?D"
  note D = dist_tensor_shape [OF assms(1,2,4,5)]
  have l: "length ?I = h" by (rule along_dim1_length [OF D assms(3)])
  have r: "length (?I ! i) = w" if "i < h" for i
    by (rule along_dim1_shape(2) [OF D assms(3) that])
  show "is_plane h w (projection_chrom cfg self img ! 1)"
    by (rule is_planeI) (simp_all add: projection_chrom_eq gather_dim1_shape l r)
  show "is_plane h w (projection_chrom cfg self img ! 2)"
    by (rule is_planeI) (simp_all add: projection_chrom_eq gather_dim1_shape l r)
qed



lemma plane_eqI:
  assumes "is_plane h w p" "is_plane h w q" "\<And>i j. i < h \<Longrightarrow> j < w \<Longrightarrow> p ! i ! j = q ! i ! j"
  shows "p = q"
proof (rule nth_equalityI)
  show "length p = length q" using assms(1,2) by (simp add: is_plane_def)
next
  fix i assume "i < length p"
  then have i: "i < h" using assms(1) by (simp add: is_plane_def)
  show "p ! i = q ! i"
  proof (rule nth_equalityI)
    show "length (p ! i) = length (q ! i)"
      using is_plane_nth [OF assms(1) i] is_plane_nth [OF assms(2) i] by simp
  next
    fix j assume "j < length (p ! i)"
    then have "j < w" using is_plane_nth [OF assms(1) i] by simp
    then show "p ! i ! j = q ! i ! j" by (rule assms(3) [OF i])
  qed
qed

lemma sq_dist_self: "sq_dist c c = 0"
  by (simp add: sq_dist_def)

lemma sq_dist_le_0: "sq_dist c x \<le> 0 \<Longrightarrow> c = x"
proof -
  assume a: "sq_dist c x \<le> 0"
  have "0 \<le> (fst c - fst x)\<^sup>2" "0 \<le> (snd c - snd x)\<^sup>2" by simp_all
  with a have "(fst c - fst x)\<^sup>2 = 0" "(snd c - snd x)\<^sup>2 = 0"
    unfolding sq_dist_def by linarith+
  then show "c = x" by (simp add: prod_eq_iff)
qed

lemma nearest_bin_fixed:
  assumes "k < length (COEFS cfg)"
  shows "coefs_to_128 cfg ! nearest_bin cfg (coefs_to_128 cfg ! k) = coefs_to_128 cfg ! k"
proof -
  from assms have "0 < length (COEFS cfg)" by (cases "COEFS cfg") simp_all
  from nearest_bin_props(2) [OF this assms, of "coefs_to_128 cfg ! k"]
  show ?thesis by (simp add: sq_dist_self sq_dist_le_0)
qed

lemma demo_shapes:
  "ones demo_self = ones_tensor 3 (size_lo demo_cfg) (size_lo demo_cfg)"
  "length (COEFS demo_cfg) = 3"
  "is_plane (size_lo demo_cfg) (size_lo demo_cfg) (luminance_64 demo_self)"
  "is_image 3 (size_lo demo_cfg) (size_lo demo_cfg) demo_out"
  "is_image 3 (size_lo demo_cfg) (size_lo demo_cfg) (proba_distrib demo_self)"
  "0 < size_lo demo_cfg"
  by (simp_all add: demo_self_def demo_cfg_def demo_out_def ones_tensor_def is_image_def
      is_plane_def eval_nat_numeral)

text \<open>
  In exact arithmetic the selected bin is one whose rescaled pair is nearest to the pixel's
  pair, and the lowest such bin.
\<close>

lemma projection_chrom_nearest_exact:
  assumes "ones self = ones_tensor n (size_lo cfg) (size_lo cfg)"
    and "length (COEFS cfg) = n" "0 < n"
    and "is_plane (size_lo cfg) (size_lo cfg) (luminance_64 self)"
    and "is_image 3 (size_lo cfg) (size_lo cfg) img"
    and "i < size_lo cfg" "j < size_lo cfg"
  shows "length (projection_chrom cfg self img) = 3 \<and>
         projection_chrom cfg self img ! 0 = pmap (\<lambda>x. x / 100) (luminance_64 self) \<and>
         (\<exists>k<n.
            projection_chrom cfg self img ! 1 ! i ! j = 0.5 * (fst (COEFS cfg ! k) + 1) \<and>
            projection_chrom cfg self img ! 2 ! i ! j = 0.5 * (snd (COEFS cfg ! k) + 1) \<and>
            (\<forall>k'<n. sq_dist (coefs_to_128 cfg ! k) (img ! 1 ! i ! j, img ! 2 ! i ! j)
                       \<le> sq_dist (coefs_to_128 cfg ! k') (img ! 1 ! i ! j, img ! 2 ! i ! j)) \<and>
            (\<forall>k'<k. sq_dist (coefs_to_128 cfg ! k) (img ! 1 ! i ! j, img ! 2 ! i ! j)
                       < sq_dist (coefs_to_128 cfg ! k') (img ! 1 ! i ! j, img ! 2 ! i ! j)))"
proof -
  let ?x = "(img ! 1 ! i ! j, img ! 2 ! i ! j)"
  let ?k = "nearest_bin cfg ?x"
  from assms(5) have p: "is_plane (size_lo cfg) (size_lo cfg) (img ! 1)"
    "is_plane (size_lo cfg) (size_lo cfg) (img ! 2)"
    by (simp_all add: is_image_nth)
  from assms(2,3) have pos: "0 < length (COEFS cfg)" by simp
  have k: "?k < n" using nearest_bin_props(1) [OF pos] assms(2) by simp
  note px = projection_chrom_pixel [OF assms(1,2,3) p assms(6,7)]
  have "projection_chrom cfg self img ! 1 ! i ! j = 0.5 * (fst (COEFS cfg ! ?k) + 1)"
    "projection_chrom cfg self img ! 2 ! i ! j = 0.5 * (snd (COEFS cfg ! ?k) + 1)"
    using px k assms(2) by (simp_all add: coefs_to_128_nth)
  moreover have "\<forall>k'<n. sq_dist (coefs_to_128 cfg ! ?k) ?x \<le> sq_dist (coefs_to_128 cfg ! k') ?x"
    using nearest_bin_props(2) [OF pos] assms(2) by simp
  moreover have "\<forall>k'<?k. sq_dist (coefs_to_128 cfg ! ?k) ?x < sq_dist (coefs_to_128 cfg ! k') ?x"
    using nearest_bin_props(3) [OF pos] by simp
  ultimately show ?thesis
    using k by (auto simp: projection_chrom_eq)
qed

text \<open>
  C6. The projection is idempotent: for every input of three channels of the low resolution,
  the projection of its projection is its projection, in all three channels.
\<close>

theorem projection_chrom_idempotent:
  assumes "ones self = ones_tensor n (size_lo cfg) (size_lo cfg)"
    and "length (COEFS cfg) = n" "0 < n"
    and "is_plane (size_lo cfg) (size_lo cfg) (luminance_64 self)"
    and "is_image 3 (size_lo cfg) (size_lo cfg) img"
  shows "projection_chrom cfg self (projection_chrom cfg self img) =
         projection_chrom cfg self img"
proof -
  let ?s = "size_lo cfg"
  let ?P = "projection_chrom cfg self img"
  let ?Q = "projection_chrom cfg self ?P"
  from assms(5) have p: "is_plane ?s ?s (img ! 1)" "is_plane ?s ?s (img ! 2)"
    by (simp_all add: is_image_nth)
  note P = projection_chrom_shape [OF assms(1,2,3) p]
  note Q = projection_chrom_shape [OF assms(1,2,3) P]
  from assms(2,3) have pos: "0 < length (COEFS cfg)" by simp
  have px: "(?Q ! 1 ! i ! j, ?Q ! 2 ! i ! j) = (?P ! 1 ! i ! j, ?P ! 2 ! i ! j)"
    if "i < ?s" "j < ?s" for i j
  proof -
    let ?k = "nearest_bin cfg (img ! 1 ! i ! j, img ! 2 ! i ! j)"
    have k: "?k < length (COEFS cfg)" by (rule nearest_bin_props(1) [OF pos])
    have a: "(?P ! 1 ! i ! j, ?P ! 2 ! i ! j) = coefs_to_128 cfg ! ?k"
      using projection_chrom_pixel [OF assms(1,2,3) p that] by simp
    have "(?Q ! 1 ! i ! j, ?Q ! 2 ! i ! j) =
            coefs_to_128 cfg ! nearest_bin cfg (?P ! 1 ! i ! j, ?P ! 2 ! i ! j)"
      using projection_chrom_pixel [OF assms(1,2,3) P that] by simp
    also have "\<dots> = coefs_to_128 cfg ! ?k"
      unfolding a by (rule nearest_bin_fixed [OF k])
    finally show ?thesis using a by simp
  qed
  have "?Q ! 1 = ?P ! 1"
    by (rule plane_eqI [OF Q(1) P(1)]) (use px in simp)
  moreover have "?Q ! 2 = ?P ! 2"
    by (rule plane_eqI [OF Q(2) P(2)]) (use px in simp)
  moreover have "?Q = [pmap (\<lambda>x. x / 100) (luminance_64 self), ?Q ! 1, ?Q ! 2]"
    by (subst projection_chrom_eq) (simp add: projection_chrom_eq)
  moreover have "?P = [pmap (\<lambda>x. x / 100) (luminance_64 self), ?P ! 1, ?P ! 2]"
    by (subst projection_chrom_eq) (simp add: projection_chrom_eq)
  ultimately show ?thesis by metis
qed

theorem projection_chrom_idempotent_witness:
  "ones demo_self = ones_tensor 3 (size_lo demo_cfg) (size_lo demo_cfg) \<and>
   length (COEFS demo_cfg) = 3 \<and>
   is_plane (size_lo demo_cfg) (size_lo demo_cfg) (luminance_64 demo_self) \<and>
   is_image 3 (size_lo demo_cfg) (size_lo demo_cfg) demo_out \<and>
   projection_chrom demo_cfg demo_self (projection_chrom demo_cfg demo_self demo_out) =
     projection_chrom demo_cfg demo_self demo_out"
  using projection_chrom_idempotent [OF demo_shapes(1,2) _ demo_shapes(3,4)] demo_shapes
  by simp


subsection \<open>The projection in rounded arithmetic\<close>

lemma projection_chrom_rounded_exact:
  "projection_chrom_rounded exact cfg self img = projection_chrom cfg self img"
proof -
  have e: "exact = (\<lambda>x. x)" by (rule ext) (simp add: exact_def)
  have c: "coefs_to_128_rounded (\<lambda>x. x) cfg = coefs_to_128 cfg"
    by (simp add: coefs_to_128_rounded_def coefs_to_128_def)
  have b: "broadcast_bins_rounded (\<lambda>x. x) v t = broadcast_bins v t" for v t
    by (simp add: broadcast_bins_rounded_def broadcast_bins_def)
  show ?thesis
    unfolding e by (simp add: projection_chrom_rounded_def projection_chrom_def c b)
qed

lemma projection_chrom_rounded_eq:
  "projection_chrom_rounded fl cfg self img =
     [pmap (\<lambda>x. fl (x / 100)) (luminance_64 self),
      gather_dim1 (broadcast_bins_rounded fl (map fst (coefs_to_128_rounded fl cfg)) (ones self))
        (along_dim1 argmin (dist_tensor_rounded fl cfg self img)),
      gather_dim1 (broadcast_bins_rounded fl (map snd (coefs_to_128_rounded fl cfg)) (ones self))
        (along_dim1 argmin (dist_tensor_rounded fl cfg self img))]"
  by (simp add: projection_chrom_rounded_def Let_def ones_tensor_channels dist_tensor_rounded_def)

lemma length_coefs_to_128_rounded: "length (coefs_to_128_rounded fl cfg) = length (COEFS cfg)"
  by (simp add: coefs_to_128_rounded_def)

lemma broadcast_bins_rounded_nth:
  "length v = n \<Longrightarrow> k < n \<Longrightarrow> i < h \<Longrightarrow> j < w \<Longrightarrow>
   broadcast_bins_rounded fl v (ones_tensor n h w) ! k ! i ! j = fl (v ! k * 1)"
  by (simp add: broadcast_bins_rounded_def ones_tensor_def pmap_def)

lemma broadcast_bins_rounded_shape:
  "length v = n \<Longrightarrow> is_image n h w (broadcast_bins_rounded fl v (ones_tensor n h w))"
  by (simp add: broadcast_bins_rounded_def ones_tensor_def pmap_def is_image_def is_plane_def
      list_all_length)

lemma table_a_rounded:
  assumes "length (COEFS cfg) = n" "k < n" "i < h" "j < w"
  shows "broadcast_bins_rounded fl (map fst (coefs_to_128_rounded fl cfg)) (ones_tensor n h w)
           ! k ! i ! j = fst (rescaled_rounded fl (COEFS cfg ! k))"
    and "broadcast_bins_rounded fl (map snd (coefs_to_128_rounded fl cfg)) (ones_tensor n h w)
           ! k ! i ! j = snd (rescaled_rounded fl (COEFS cfg ! k))"
  using assms
  by (simp_all add: broadcast_bins_rounded_nth length_coefs_to_128_rounded
      coefs_to_128_rounded_def rescaled_rounded_def split: prod.splits)

lemma dist_tensor_rounded_shape:
  assumes "ones self = ones_tensor n h w" "length (COEFS cfg) = n"
    "is_plane h w (img ! 1)" "is_plane h w (img ! 2)"
  shows "is_image n h w (dist_tensor_rounded fl cfg self img)"
proof (rule is_imageI)
  let ?A = "broadcast_bins_rounded fl (map fst (coefs_to_128_rounded fl cfg)) (ones self)"
  let ?B = "broadcast_bins_rounded fl (map snd (coefs_to_128_rounded fl cfg)) (ones self)"
  have A: "is_image n h w ?A" and B: "is_image n h w ?B"
    using assms(1,2)
    by (simp_all add: broadcast_bins_rounded_shape length_coefs_to_128_rounded)
  show "length (dist_tensor_rounded fl cfg self img) = n"
    using is_image_length [OF A] is_image_length [OF B]
    by (simp add: dist_tensor_rounded_def)
  fix k assume k: "k < n"
  show "is_plane h w (dist_tensor_rounded fl cfg self img ! k)"
    using k is_image_length [OF A] is_image_length [OF B]
      is_image_nth [OF A k] is_image_nth [OF B k] assms(3,4)
    by (simp add: dist_tensor_rounded_def pmap2_shape pmap_shape)
qed

lemma dist_tensor_rounded_nth:
  assumes "ones self = ones_tensor n h w" "length (COEFS cfg) = n"
    "is_plane h w (img ! 1)" "is_plane h w (img ! 2)" "k < n" "i < h" "j < w"
  shows "dist_tensor_rounded fl cfg self img ! k ! i ! j =
           sq_dist_rounded fl (rescaled_rounded fl (COEFS cfg ! k))
             (img ! 1 ! i ! j, img ! 2 ! i ! j)"
proof -
  let ?A = "broadcast_bins_rounded fl (map fst (coefs_to_128_rounded fl cfg)) (ones self)"
  let ?B = "broadcast_bins_rounded fl (map snd (coefs_to_128_rounded fl cfg)) (ones self)"
  let ?da = "pmap2 (\<lambda>x y. fl (x - y)) (?A ! k) (img ! 1)"
  let ?db = "pmap2 (\<lambda>x y. fl (x - y)) (?B ! k) (img ! 2)"
  let ?sa = "pmap (\<lambda>x. fl (x\<^sup>2)) ?da"
  let ?sb = "pmap (\<lambda>x. fl (x\<^sup>2)) ?db"
  have A: "is_image n h w ?A" and B: "is_image n h w ?B"
    using assms(1,2)
    by (simp_all add: broadcast_bins_rounded_shape length_coefs_to_128_rounded)
  note a = is_image_nth [OF A assms(5)] and b = is_image_nth [OF B assms(5)]
  have va: "?A ! k ! i ! j = fst (rescaled_rounded fl (COEFS cfg ! k))"
    unfolding assms(1) by (rule table_a_rounded(1) [OF assms(2,5,6,7)])
  have vb: "?B ! k ! i ! j = snd (rescaled_rounded fl (COEFS cfg ! k))"
    unfolding assms(1) by (rule table_a_rounded(2) [OF assms(2,5,6,7)])
  note da = pmap2_shape [OF a assms(3), of "\<lambda>x y. fl (x - y)"]
  note db = pmap2_shape [OF b assms(4), of "\<lambda>x y. fl (x - y)"]
  note sa = pmap_shape [OF da, of "\<lambda>x. fl (x\<^sup>2)"]
  note sb = pmap_shape [OF db, of "\<lambda>x. fl (x\<^sup>2)"]
  have "dist_tensor_rounded fl cfg self img ! k = pmap2 (\<lambda>x y. fl (x + y)) ?sa ?sb"
    using is_image_length [OF A] is_image_length [OF B] assms(5)
    by (simp add: dist_tensor_rounded_def)
  then have "dist_tensor_rounded fl cfg self img ! k ! i ! j =
      pmap2 (\<lambda>x y. fl (x + y)) ?sa ?sb ! i ! j"
    by (rule arg_cong)
  also have "\<dots> = fl (?sa ! i ! j + ?sb ! i ! j)"
    by (rule pmap2_nth [OF sa sb assms(6,7)])
  also have "?sa ! i ! j = fl ((?da ! i ! j)\<^sup>2)"
    by (rule pmap_nth' [OF da assms(6,7)])
  also have "?sb ! i ! j = fl ((?db ! i ! j)\<^sup>2)"
    by (rule pmap_nth' [OF db assms(6,7)])
  also have "?da ! i ! j = fl (?A ! k ! i ! j - img ! 1 ! i ! j)"
    by (rule pmap2_nth [OF a assms(3,6,7)])
  also have "?db ! i ! j = fl (?B ! k ! i ! j - img ! 2 ! i ! j)"
    by (rule pmap2_nth [OF b assms(4,6,7)])
  finally show ?thesis
    unfolding va vb sq_dist_rounded_def fst_conv snd_conv .
qed

lemma dist_tensor_rounded_column:
  assumes "ones self = ones_tensor n h w" "length (COEFS cfg) = n"
    "is_plane h w (img ! 1)" "is_plane h w (img ! 2)" "i < h" "j < w"
  shows "map (\<lambda>q. q ! i ! j) (dist_tensor_rounded fl cfg self img) =
           map (\<lambda>c. sq_dist_rounded fl (rescaled_rounded fl c) (img ! 1 ! i ! j, img ! 2 ! i ! j))
             (COEFS cfg)"
proof (rule nth_equalityI)
  note l = is_image_length [OF dist_tensor_rounded_shape [OF assms(1-4), of fl]]
  show "length (map (\<lambda>q. q ! i ! j) (dist_tensor_rounded fl cfg self img)) =
        length (map (\<lambda>c. sq_dist_rounded fl (rescaled_rounded fl c)
                            (img ! 1 ! i ! j, img ! 2 ! i ! j)) (COEFS cfg))"
    using l assms(2) by simp
  fix k assume "k < length (map (\<lambda>q. q ! i ! j) (dist_tensor_rounded fl cfg self img))"
  then have k: "k < n" using l by simp
  then show "map (\<lambda>q. q ! i ! j) (dist_tensor_rounded fl cfg self img) ! k =
        map (\<lambda>c. sq_dist_rounded fl (rescaled_rounded fl c)
                   (img ! 1 ! i ! j, img ! 2 ! i ! j)) (COEFS cfg) ! k"
    using dist_tensor_rounded_nth [OF assms(1-4) k assms(5,6), of fl] assms(2) l
    by simp
qed

lemma nearest_bin_rounded_props:
  assumes "0 < length (COEFS cfg)"
  shows "nearest_bin_rounded fl cfg x < length (COEFS cfg)"
    and "k < length (COEFS cfg) \<Longrightarrow>
           sq_dist_rounded fl (rescaled_rounded fl (COEFS cfg ! nearest_bin_rounded fl cfg x)) x
             \<le> sq_dist_rounded fl (rescaled_rounded fl (COEFS cfg ! k)) x"
    and "k < nearest_bin_rounded fl cfg x \<Longrightarrow>
           sq_dist_rounded fl (rescaled_rounded fl (COEFS cfg ! nearest_bin_rounded fl cfg x)) x
             < sq_dist_rounded fl (rescaled_rounded fl (COEFS cfg ! k)) x"
proof -
  let ?d = "map (\<lambda>c. sq_dist_rounded fl (rescaled_rounded fl c) x) (COEFS cfg)"
  from assms have ne: "?d \<noteq> []" by simp
  from argmin_less [OF ne] show b: "nearest_bin_rounded fl cfg x < length (COEFS cfg)"
    by (simp add: nearest_bin_rounded_def)
  show "sq_dist_rounded fl (rescaled_rounded fl (COEFS cfg ! nearest_bin_rounded fl cfg x)) x
             \<le> sq_dist_rounded fl (rescaled_rounded fl (COEFS cfg ! k)) x"
    if "k < length (COEFS cfg)"
    using argmin_le [of k ?d] that b by (simp add: nearest_bin_rounded_def)
  show "sq_dist_rounded fl (rescaled_rounded fl (COEFS cfg ! nearest_bin_rounded fl cfg x)) x
             < sq_dist_rounded fl (rescaled_rounded fl (COEFS cfg ! k)) x"
    if "k < nearest_bin_rounded fl cfg x"
    using argmin_first [of k ?d] that b by (simp add: nearest_bin_rounded_def)
qed

lemma projection_chrom_rounded_pixel:
  assumes "ones self = ones_tensor n h w" "length (COEFS cfg) = n" "0 < n"
    "is_plane h w (img ! 1)" "is_plane h w (img ! 2)" "i < h" "j < w"
  shows "projection_chrom_rounded fl cfg self img ! 1 ! i ! j =
           fst (rescaled_rounded fl
                  (COEFS cfg ! nearest_bin_rounded fl cfg (img ! 1 ! i ! j, img ! 2 ! i ! j)))"
    and "projection_chrom_rounded fl cfg self img ! 2 ! i ! j =
           snd (rescaled_rounded fl
                  (COEFS cfg ! nearest_bin_rounded fl cfg (img ! 1 ! i ! j, img ! 2 ! i ! j)))"
proof -
  let ?D = "dist_tensor_rounded fl cfg self img"
  let ?I = "along_dim1 argmin ?D"
  let ?K = "nearest_bin_rounded fl cfg (img ! 1 ! i ! j, img ! 2 ! i ! j)"
  note D = dist_tensor_rounded_shape [OF assms(1,2,4,5), of fl]
  have I: "?I ! i ! j = ?K"
    using along_dim1_nth [OF D assms(3,6,7)] dist_tensor_rounded_column [OF assms(1,2,4,5,6,7), of fl]
    by (simp add: nearest_bin_rounded_def)
  have K: "?K < n"
    using nearest_bin_rounded_props(1) [of cfg fl] assms(2,3) by simp
  note sh = along_dim1_shape [OF D assms(3,6)]
  from assms(6) have h: "0 < h" by simp
  have g: "gather_dim1 t ?I ! i ! j = t ! ?K ! 0 ! j" for t
    using sh assms(6,7) I by (simp add: gather_dim1_nth)
  show "projection_chrom_rounded fl cfg self img ! 1 ! i ! j =
           fst (rescaled_rounded fl (COEFS cfg ! ?K))"
    using table_a_rounded(1) [OF assms(2) K h assms(7), of fl]
    by (simp add: projection_chrom_rounded_eq g assms(1))
  show "projection_chrom_rounded fl cfg self img ! 2 ! i ! j =
           snd (rescaled_rounded fl (COEFS cfg ! ?K))"
    using table_a_rounded(2) [OF assms(2) K h assms(7), of fl]
    by (simp add: projection_chrom_rounded_eq g assms(1))
qed

lemma demo_fine_shapes:
  "ones demo_self = ones_tensor 3 (size_lo demo_cfg_fine) (size_lo demo_cfg_fine)"
  "length (COEFS demo_cfg_fine) = 3"
  "is_plane (size_lo demo_cfg_fine) (size_lo demo_cfg_fine) (luminance_64 demo_self)"
  "is_image 3 (size_lo demo_cfg_fine) (size_lo demo_cfg_fine) demo_out_on_palette"
  "0 < size_lo demo_cfg_fine"
  by (simp_all add: demo_self_def demo_cfg_fine_def demo_cfg_def demo_out_on_palette_def
      ones_tensor_def is_image_def is_plane_def eval_nat_numeral)

lemma demo_dyadic_shape:
  "is_image 3 (size_lo demo_cfg) (size_lo demo_cfg) demo_out_dyadic"
  by (simp add: demo_cfg_def demo_out_dyadic_def is_image_def is_plane_def)

lemma demo_rescaled_exact:
  "map (rescaled_rounded exact) (COEFS demo_cfg) = [(0, 1 / 2), (1 / 2, 1 / 2), (1, 1)]"
  by (simp add: rescaled_rounded_def exact_def demo_cfg_def)

lemma demo_nearest_bin_exact: "nearest_bin_rounded exact demo_cfg (3 / 8, 5 / 8) = Suc 0"
  by (simp add: nearest_bin_rounded_def rescaled_rounded_def sq_dist_rounded_def exact_def
      demo_cfg_def power2_eq_square Let_def)

lemma demo_projection_dyadic:
  "projection_chrom_rounded exact demo_cfg demo_self demo_out_dyadic ! 1 ! 0 ! 0 = 1 / 2"
  "projection_chrom_rounded exact demo_cfg demo_self demo_out_dyadic ! 2 ! 0 ! 0 = 1 / 2"
proof -
  have p: "is_plane (size_lo demo_cfg) (size_lo demo_cfg) (demo_out_dyadic ! 1)"
    "is_plane (size_lo demo_cfg) (size_lo demo_cfg) (demo_out_dyadic ! 2)"
    using demo_dyadic_shape by (simp_all add: is_image_nth)
  have x: "(demo_out_dyadic ! Suc 0 ! 0 ! 0, demo_out_dyadic ! 2 ! 0 ! 0) = (3 / 8, 5 / 8)"
    by (simp add: demo_out_dyadic_def)
  have c: "rescaled_rounded exact (COEFS demo_cfg ! Suc 0) = (1 / 2, 1 / 2)"
    by (simp add: rescaled_rounded_def exact_def demo_cfg_def)
  note px = projection_chrom_rounded_pixel
    [OF demo_shapes(1,2) _ p demo_shapes(6) demo_shapes(6), of exact]
  show "projection_chrom_rounded exact demo_cfg demo_self demo_out_dyadic ! 1 ! 0 ! 0 = 1 / 2"
    using px(1) by (simp add: x demo_nearest_bin_exact c)
  show "projection_chrom_rounded exact demo_cfg demo_self demo_out_dyadic ! 2 ! 0 ! 0 = 1 / 2"
    using px(2) by (simp add: x demo_nearest_bin_exact c)
qed

lemma round_quarter_values:
  "round_quarter 0 = 0" "round_quarter (1 / 4) = 1 / 4" "round_quarter (1 / 2) = 1 / 2"
  "round_quarter 1 = 1" "round_quarter 2 = 2" "round_quarter (- (1 / 4)) = - (1 / 4)"
  "round_quarter (3 / 4) = 3 / 4" "round_quarter (1 / 16) = 0" "round_quarter (9 / 16) = 1 / 2"
  "round_quarter (1 / 200) = 0"
  by (simp_all add: round_quarter_def)

lemma demo_rescaled_quarter:
  "map (rescaled_rounded round_quarter) (COEFS demo_cfg_fine) =
     [(0, 1 / 2), (1 / 4, 1 / 2), (1, 1)]"
  by (simp add: rescaled_rounded_def demo_cfg_fine_def demo_cfg_def round_quarter_values)

lemma demo_distances_quarter:
  "map (\<lambda>c. sq_dist_rounded round_quarter (rescaled_rounded round_quarter c) (1 / 4, 1 / 2))
     (COEFS demo_cfg_fine) = [0, 0, 3 / 4]"
  by (simp add: sq_dist_rounded_def rescaled_rounded_def demo_cfg_fine_def demo_cfg_def
      round_quarter_values power2_eq_square)

lemma demo_distances_exact_fine:
  "map (\<lambda>c. sq_dist_rounded exact (rescaled_rounded exact c) (1 / 4, 1 / 2))
     (COEFS demo_cfg_fine) = [1 / 16, 0, 13 / 16]"
  by (simp add: sq_dist_rounded_def rescaled_rounded_def demo_cfg_fine_def demo_cfg_def
      exact_def power2_eq_square)

lemma demo_projection_quarter:
  "projection_chrom_rounded round_quarter demo_cfg_fine demo_self demo_out_on_palette ! 1 ! 0 ! 0 = 0"
  "projection_chrom_rounded round_quarter demo_cfg_fine demo_self demo_out_on_palette ! 2 ! 0 ! 0 = 1 / 2"
proof -
  have p: "is_plane (size_lo demo_cfg_fine) (size_lo demo_cfg_fine) (demo_out_on_palette ! 1)"
    "is_plane (size_lo demo_cfg_fine) (size_lo demo_cfg_fine) (demo_out_on_palette ! 2)"
    using demo_fine_shapes(4) by (simp_all add: is_image_nth)
  have x: "(demo_out_on_palette ! Suc 0 ! 0 ! 0, demo_out_on_palette ! 2 ! 0 ! 0) = (1 / 4, 1 / 2)"
    by (simp add: demo_out_on_palette_def)
  have k: "nearest_bin_rounded round_quarter demo_cfg_fine (1 / 4, 1 / 2) = 0"
    by (simp add: nearest_bin_rounded_def demo_distances_quarter)
  have c: "rescaled_rounded round_quarter (COEFS demo_cfg_fine ! 0) = (0, 1 / 2)"
    using demo_rescaled_quarter by (simp add: demo_cfg_fine_def demo_cfg_def)
  note px = projection_chrom_rounded_pixel
    [OF demo_fine_shapes(1,2) _ p demo_fine_shapes(5) demo_fine_shapes(5), of round_quarter]
  show "projection_chrom_rounded round_quarter demo_cfg_fine demo_self demo_out_on_palette ! 1 ! 0 ! 0 = 0"
    using px(1) by (simp add: x k c)
  show "projection_chrom_rounded round_quarter demo_cfg_fine demo_self demo_out_on_palette ! 2 ! 0 ! 0 = 1 / 2"
    using px(2) by (simp add: x k c)
qed

text \<open>
  C7, as the function computes. The palette is rescaled by \<open>x \<mapsto> 0.5 * (x + 1)\<close> (to lie
  between 0 and 1, as the source notes) before it is compared and before it is written, and
  the distances are compared as computed. For every rounding \<open>fl\<close> of the number format and
  an input of three channels of the low resolution, channel 0 of the projection is
  \<open>luminance_64 / 100\<close>, whatever channel 0 of the input is, and the pair of chrominances at
  every pixel is the rescaled pair of one bin \<open>k\<close>: one whose rescaled pair has the least
  computed squared distance to the pixel's pair among all bins, and the lowest such bin.
\<close>

theorem projection_chrom_nearest:
  assumes "ones self = ones_tensor n (size_lo cfg) (size_lo cfg)"
    and "length (COEFS cfg) = n" "0 < n"
    and "is_plane (size_lo cfg) (size_lo cfg) (luminance_64 self)"
    and "is_image 3 (size_lo cfg) (size_lo cfg) img"
    and "i < size_lo cfg" "j < size_lo cfg"
  shows "length (projection_chrom_rounded fl cfg self img) = 3 \<and>
         projection_chrom_rounded fl cfg self img ! 0 =
           pmap (\<lambda>x. fl (x / 100)) (luminance_64 self) \<and>
         (\<exists>k<n.
            (projection_chrom_rounded fl cfg self img ! 1 ! i ! j,
             projection_chrom_rounded fl cfg self img ! 2 ! i ! j) =
              rescaled_rounded fl (COEFS cfg ! k) \<and>
            (\<forall>k'<n. sq_dist_rounded fl (rescaled_rounded fl (COEFS cfg ! k))
                         (img ! 1 ! i ! j, img ! 2 ! i ! j)
                       \<le> sq_dist_rounded fl (rescaled_rounded fl (COEFS cfg ! k'))
                            (img ! 1 ! i ! j, img ! 2 ! i ! j)) \<and>
            (\<forall>k'<k. sq_dist_rounded fl (rescaled_rounded fl (COEFS cfg ! k))
                         (img ! 1 ! i ! j, img ! 2 ! i ! j)
                       < sq_dist_rounded fl (rescaled_rounded fl (COEFS cfg ! k'))
                           (img ! 1 ! i ! j, img ! 2 ! i ! j)))"
proof -
  let ?x = "(img ! 1 ! i ! j, img ! 2 ! i ! j)"
  let ?k = "nearest_bin_rounded fl cfg ?x"
  from assms(5) have p: "is_plane (size_lo cfg) (size_lo cfg) (img ! 1)"
    "is_plane (size_lo cfg) (size_lo cfg) (img ! 2)"
    by (simp_all add: is_image_nth)
  from assms(2,3) have pos: "0 < length (COEFS cfg)" by simp
  have k: "?k < n" using nearest_bin_rounded_props(1) [OF pos] assms(2) by simp
  note px = projection_chrom_rounded_pixel [OF assms(1,2,3) p assms(6,7), of fl]
  have a: "(projection_chrom_rounded fl cfg self img ! 1 ! i ! j,
         projection_chrom_rounded fl cfg self img ! 2 ! i ! j) =
          rescaled_rounded fl (COEFS cfg ! ?k)"
    using px by simp
  have b: "\<forall>k'<n. sq_dist_rounded fl (rescaled_rounded fl (COEFS cfg ! ?k)) ?x
                   \<le> sq_dist_rounded fl (rescaled_rounded fl (COEFS cfg ! k')) ?x"
    using nearest_bin_rounded_props(2) [OF pos] assms(2) by simp
  have c: "\<forall>k'<?k. sq_dist_rounded fl (rescaled_rounded fl (COEFS cfg ! ?k)) ?x
                   < sq_dist_rounded fl (rescaled_rounded fl (COEFS cfg ! k')) ?x"
    using nearest_bin_rounded_props(3) [OF pos] by simp
  show ?thesis
  proof (intro conjI exI [of _ ?k])
    show "length (projection_chrom_rounded fl cfg self img) = 3"
      by (simp add: projection_chrom_rounded_eq)
    show "projection_chrom_rounded fl cfg self img ! 0 =
            pmap (\<lambda>x. fl (x / 100)) (luminance_64 self)"
      by (simp add: projection_chrom_rounded_eq)
  qed (rule k a b c)+
qed


theorem projection_chrom_nearest_witness:
  "ones demo_self = ones_tensor 3 (size_lo demo_cfg) (size_lo demo_cfg) \<and>
   length (COEFS demo_cfg) = 3 \<and>
   is_plane (size_lo demo_cfg) (size_lo demo_cfg) (luminance_64 demo_self) \<and>
   is_image 3 (size_lo demo_cfg) (size_lo demo_cfg) demo_out_dyadic \<and>
   0 < size_lo demo_cfg \<and>
   projection_chrom_rounded exact demo_cfg demo_self demo_out_dyadic ! 0 = [[1 / 5]] \<and>
   (projection_chrom_rounded exact demo_cfg demo_self demo_out_dyadic ! 1 ! 0 ! 0,
    projection_chrom_rounded exact demo_cfg demo_self demo_out_dyadic ! 2 ! 0 ! 0) = (1 / 2, 1 / 2) \<and>
   (\<exists>k<3.
      (projection_chrom_rounded exact demo_cfg demo_self demo_out_dyadic ! 1 ! 0 ! 0,
       projection_chrom_rounded exact demo_cfg demo_self demo_out_dyadic ! 2 ! 0 ! 0) =
        rescaled_rounded exact (COEFS demo_cfg ! k) \<and>
      (\<forall>k'<3. sq_dist_rounded exact (rescaled_rounded exact (COEFS demo_cfg ! k))
                   (demo_out_dyadic ! 1 ! 0 ! 0, demo_out_dyadic ! 2 ! 0 ! 0)
                 \<le> sq_dist_rounded exact (rescaled_rounded exact (COEFS demo_cfg ! k'))
                      (demo_out_dyadic ! 1 ! 0 ! 0, demo_out_dyadic ! 2 ! 0 ! 0)) \<and>
      (\<forall>k'<k. sq_dist_rounded exact (rescaled_rounded exact (COEFS demo_cfg ! k))
                   (demo_out_dyadic ! 1 ! 0 ! 0, demo_out_dyadic ! 2 ! 0 ! 0)
                 < sq_dist_rounded exact (rescaled_rounded exact (COEFS demo_cfg ! k'))
                     (demo_out_dyadic ! 1 ! 0 ! 0, demo_out_dyadic ! 2 ! 0 ! 0))) \<and>
   is_image 3 (size_lo demo_cfg_fine) (size_lo demo_cfg_fine) demo_out_on_palette \<and>
   (projection_chrom_rounded round_quarter demo_cfg_fine demo_self demo_out_on_palette ! 1 ! 0 ! 0,
    projection_chrom_rounded round_quarter demo_cfg_fine demo_self demo_out_on_palette ! 2 ! 0 ! 0) =
     (0, 1 / 2) \<and>
   (\<exists>k<3.
      (projection_chrom_rounded round_quarter demo_cfg_fine demo_self demo_out_on_palette ! 1 ! 0 ! 0,
       projection_chrom_rounded round_quarter demo_cfg_fine demo_self demo_out_on_palette ! 2 ! 0 ! 0) =
        rescaled_rounded round_quarter (COEFS demo_cfg_fine ! k) \<and>
      (\<forall>k'<3. sq_dist_rounded round_quarter (rescaled_rounded round_quarter (COEFS demo_cfg_fine ! k))
                   (demo_out_on_palette ! 1 ! 0 ! 0, demo_out_on_palette ! 2 ! 0 ! 0)
                 \<le> sq_dist_rounded round_quarter
                      (rescaled_rounded round_quarter (COEFS demo_cfg_fine ! k'))
                      (demo_out_on_palette ! 1 ! 0 ! 0, demo_out_on_palette ! 2 ! 0 ! 0)) \<and>
      (\<forall>k'<k. sq_dist_rounded round_quarter (rescaled_rounded round_quarter (COEFS demo_cfg_fine ! k))
                   (demo_out_on_palette ! 1 ! 0 ! 0, demo_out_on_palette ! 2 ! 0 ! 0)
                 < sq_dist_rounded round_quarter
                     (rescaled_rounded round_quarter (COEFS demo_cfg_fine ! k'))
                     (demo_out_on_palette ! 1 ! 0 ! 0, demo_out_on_palette ! 2 ! 0 ! 0)))"
proof -
  have l: "pmap (\<lambda>x. exact (x / 100)) (luminance_64 demo_self) = [[1 / 5]]"
    by (simp add: demo_self_def pmap_def exact_def)
  note e = projection_chrom_nearest
    [OF demo_shapes(1,2) _ demo_shapes(3) demo_dyadic_shape demo_shapes(6,6), of exact]
  note q = projection_chrom_nearest
    [OF demo_fine_shapes(1,2) _ demo_fine_shapes(3,4,5,5), of round_quarter]
  from e have e0: "projection_chrom_rounded exact demo_cfg demo_self demo_out_dyadic ! 0 = [[1 / 5]]"
    by (simp add: l)
  from e have e1: "\<exists>k<3.
      (projection_chrom_rounded exact demo_cfg demo_self demo_out_dyadic ! 1 ! 0 ! 0,
       projection_chrom_rounded exact demo_cfg demo_self demo_out_dyadic ! 2 ! 0 ! 0) =
        rescaled_rounded exact (COEFS demo_cfg ! k) \<and>
      (\<forall>k'<3. sq_dist_rounded exact (rescaled_rounded exact (COEFS demo_cfg ! k))
                   (demo_out_dyadic ! 1 ! 0 ! 0, demo_out_dyadic ! 2 ! 0 ! 0)
                 \<le> sq_dist_rounded exact (rescaled_rounded exact (COEFS demo_cfg ! k'))
                      (demo_out_dyadic ! 1 ! 0 ! 0, demo_out_dyadic ! 2 ! 0 ! 0)) \<and>
      (\<forall>k'<k. sq_dist_rounded exact (rescaled_rounded exact (COEFS demo_cfg ! k))
                   (demo_out_dyadic ! 1 ! 0 ! 0, demo_out_dyadic ! 2 ! 0 ! 0)
                 < sq_dist_rounded exact (rescaled_rounded exact (COEFS demo_cfg ! k'))
                     (demo_out_dyadic ! 1 ! 0 ! 0, demo_out_dyadic ! 2 ! 0 ! 0))"
    by simp
  from q have q1: "\<exists>k<3.
      (projection_chrom_rounded round_quarter demo_cfg_fine demo_self demo_out_on_palette ! 1 ! 0 ! 0,
       projection_chrom_rounded round_quarter demo_cfg_fine demo_self demo_out_on_palette ! 2 ! 0 ! 0) =
        rescaled_rounded round_quarter (COEFS demo_cfg_fine ! k) \<and>
      (\<forall>k'<3. sq_dist_rounded round_quarter (rescaled_rounded round_quarter (COEFS demo_cfg_fine ! k))
                   (demo_out_on_palette ! 1 ! 0 ! 0, demo_out_on_palette ! 2 ! 0 ! 0)
                 \<le> sq_dist_rounded round_quarter
                      (rescaled_rounded round_quarter (COEFS demo_cfg_fine ! k'))
                      (demo_out_on_palette ! 1 ! 0 ! 0, demo_out_on_palette ! 2 ! 0 ! 0)) \<and>
      (\<forall>k'<k. sq_dist_rounded round_quarter (rescaled_rounded round_quarter (COEFS demo_cfg_fine ! k))
                   (demo_out_on_palette ! 1 ! 0 ! 0, demo_out_on_palette ! 2 ! 0 ! 0)
                 < sq_dist_rounded round_quarter
                     (rescaled_rounded round_quarter (COEFS demo_cfg_fine ! k'))
                     (demo_out_on_palette ! 1 ! 0 ! 0, demo_out_on_palette ! 2 ! 0 ! 0))"
    by simp
  show ?thesis
    by (intro conjI demo_shapes demo_dyadic_shape demo_fine_shapes e0 e1 q1)
       (simp_all add: demo_projection_dyadic [unfolded One_nat_def]
          demo_projection_quarter [unfolded One_nat_def])
qed

text \<open>
  C7 as the specification states it has the projected pair equal to the coefficients of a
  palette entry. For the palette \<open>(-1, 0), (0, 0), (1, 1)\<close> and a pixel with the chrominances
  \<open>(3/8, 5/8)\<close> the projected pair is \<open>(1/2, 1/2)\<close>, the rescaled entry \<open>(0, 0)\<close>, which is not an
  entry of the palette. No operation rounds on these numbers in a binary floating-point
  format, so the exact arithmetic is that of the source here.
\<close>

theorem projection_chrom_not_a_palette_entry:
  "(projection_chrom_rounded exact demo_cfg demo_self demo_out_dyadic ! 1 ! 0 ! 0,
    projection_chrom_rounded exact demo_cfg demo_self demo_out_dyadic ! 2 ! 0 ! 0)
     \<notin> set (COEFS demo_cfg)"
  by (simp add: demo_projection_dyadic [unfolded One_nat_def]) (simp add: demo_cfg_def)

text \<open>
  Rounding can tie distances that differ. In the format with two binary places the pixel
  \<open>(1/4, 1/2)\<close> is the rescaled second entry of the finer palette, at the exact squared
  distance \<open>1/16\<close> from the rescaled first entry; both computed distances are 0, and the
  projection writes the first entry.
\<close>

lemma projection_chrom_rounding_tie:
  "rescaled_rounded round_quarter (COEFS demo_cfg_fine ! 1) =
     (demo_out_on_palette ! 1 ! 0 ! 0, demo_out_on_palette ! 2 ! 0 ! 0) \<and>
   (projection_chrom_rounded round_quarter demo_cfg_fine demo_self demo_out_on_palette ! 1 ! 0 ! 0,
    projection_chrom_rounded round_quarter demo_cfg_fine demo_self demo_out_on_palette ! 2 ! 0 ! 0) =
     rescaled_rounded round_quarter (COEFS demo_cfg_fine ! 0) \<and>
   rescaled_rounded round_quarter (COEFS demo_cfg_fine ! 0) \<noteq>
     rescaled_rounded round_quarter (COEFS demo_cfg_fine ! 1)"
proof -
  have a: "rescaled_rounded round_quarter (COEFS demo_cfg_fine ! 0) = (0, 1 / 2)"
    "rescaled_rounded round_quarter (COEFS demo_cfg_fine ! 1) = (1 / 4, 1 / 2)"
    using demo_rescaled_quarter by (simp_all add: demo_cfg_fine_def demo_cfg_def)
  have b: "(demo_out_on_palette ! 1 ! 0 ! 0, demo_out_on_palette ! 2 ! 0 ! 0) = (1 / 4, 1 / 2)"
    by (simp add: demo_out_on_palette_def)
  show ?thesis
    unfolding a b by (simp add: demo_projection_quarter [unfolded One_nat_def])
qed

section \<open>The initial target\<close>

lemma get_initialized_image_eq:
  "get_initialized_image cfg self =
     [pmap (\<lambda>x. x / 100) (luminance_64 self),
      gather_dim1 (broadcast_bins (map fst (coefs_to_128 cfg)) (ones self))
        (along_dim1 argmax (proba_distrib self)),
      gather_dim1 (broadcast_bins (map snd (coefs_to_128 cfg)) (ones self))
        (along_dim1 argmax (proba_distrib self))]"
  by (simp add: get_initialized_image_def Let_def ones_tensor_channels)

lemma get_initialized_image_pixel:
  assumes "ones self = ones_tensor n h w" "length (COEFS cfg) = n" "0 < n"
    "is_image n h w (proba_distrib self)" "i < h" "j < w"
  shows "get_initialized_image cfg self ! 1 ! i ! j =
           fst (coefs_to_128 cfg ! argmax (map (\<lambda>q. q ! i ! j) (proba_distrib self)))"
    and "get_initialized_image cfg self ! 2 ! i ! j =
           snd (coefs_to_128 cfg ! argmax (map (\<lambda>q. q ! i ! j) (proba_distrib self)))"
proof -
  let ?I = "along_dim1 argmax (proba_distrib self)"
  let ?K = "argmax (map (\<lambda>q. q ! i ! j) (proba_distrib self))"
  have I: "?I ! i ! j = ?K" by (rule along_dim1_nth [OF assms(4,3,5,6)])
  from assms(3,4) have "map (\<lambda>q. q ! i ! j) (proba_distrib self) \<noteq> []"
    by (auto simp: is_image_def)
  from argmax_less [OF this] assms(4) have K: "?K < n" by (simp add: is_image_def)
  note sh = along_dim1_shape [OF assms(4,3,5)]
  have "gather_dim1 (broadcast_bins (map fst (coefs_to_128 cfg)) (ones_tensor n h w)) ?I ! i ! j =
          map fst (coefs_to_128 cfg) ! (?I ! i ! j)"
    by (rule gather_broadcast_nth) (use sh I K assms in \<open>simp_all add: length_coefs_to_128\<close>)
  then show "get_initialized_image cfg self ! 1 ! i ! j = fst (coefs_to_128 cfg ! ?K)"
    using I K assms(1,2) by (simp add: get_initialized_image_eq length_coefs_to_128)
  have "gather_dim1 (broadcast_bins (map snd (coefs_to_128 cfg)) (ones_tensor n h w)) ?I ! i ! j =
          map snd (coefs_to_128 cfg) ! (?I ! i ! j)"
    by (rule gather_broadcast_nth) (use sh I K assms in \<open>simp_all add: length_coefs_to_128\<close>)
  then show "get_initialized_image cfg self ! 2 ! i ! j = snd (coefs_to_128 cfg ! ?K)"
    using I K assms(1,2) by (simp add: get_initialized_image_eq length_coefs_to_128)
qed

lemma demo_argmax: "argmax [1 / 4, 1 / 2, 1 / 4] = Suc 0"
  by (simp add: Let_def)

lemma demo_initial_pixel:
  "get_initialized_image demo_cfg demo_self ! 1 ! 0 ! 0 = 1 / 2"
  "get_initialized_image demo_cfg demo_self ! 2 ! 0 ! 0 = 1 / 2"
proof -
  have d: "map (\<lambda>q. q ! 0 ! 0) (proba_distrib demo_self) = [1 / 4, 1 / 2, 1 / 4]"
    by (simp add: demo_self_def)
  have c: "coefs_to_128 demo_cfg ! Suc 0 = (1 / 2, 1 / 2)"
    by (simp add: coefs_to_128_def demo_cfg_def)
  note px = get_initialized_image_pixel [OF demo_shapes(1,2) _ demo_shapes(5,6,6)]
  show "get_initialized_image demo_cfg demo_self ! 1 ! 0 ! 0 = 1 / 2"
    using px(1) by (simp add: d demo_argmax c)
  show "get_initialized_image demo_cfg demo_self ! 2 ! 0 ! 0 = 1 / 2"
    using px(2) by (simp add: d demo_argmax c)
qed

text \<open>
  C4, as the function computes. Channel 0 of the initial target is \<open>luminance_64 / 100\<close>, and
  the pair of chrominances at every pixel is the pair of coefficients of the first bin of
  maximal probability at that pixel, rescaled by \<open>x \<mapsto> 0.5 * (x + 1)\<close>: the mode,
  not the mean. The rescaling is not \<open>BaseColor.unnormalize_ab\<close>, which this function does not
  call.
\<close>

theorem initial_target_is_mode:
  assumes "ones self = ones_tensor n (size_lo cfg) (size_lo cfg)"
    and "length (COEFS cfg) = n" "0 < n"
    and "is_plane (size_lo cfg) (size_lo cfg) (luminance_64 self)"
    and "is_image n (size_lo cfg) (size_lo cfg) (proba_distrib self)"
    and "i < size_lo cfg" "j < size_lo cfg"
  shows "length (get_initialized_image cfg self) = 3 \<and>
         get_initialized_image cfg self ! 0 = pmap (\<lambda>x. x / 100) (luminance_64 self) \<and>
         (\<exists>k<n.
            (\<forall>b<n. proba_distrib self ! b ! i ! j \<le> proba_distrib self ! k ! i ! j) \<and>
            (\<forall>b<k. proba_distrib self ! b ! i ! j < proba_distrib self ! k ! i ! j) \<and>
            get_initialized_image cfg self ! 1 ! i ! j = 0.5 * (fst (COEFS cfg ! k) + 1) \<and>
            get_initialized_image cfg self ! 2 ! i ! j = 0.5 * (snd (COEFS cfg ! k) + 1))"
proof -
  let ?col = "map (\<lambda>q. q ! i ! j) (proba_distrib self)"
  let ?k = "argmax ?col"
  from assms(5) have l: "length ?col = n" by (simp add: is_image_def)
  with assms(3) have "?col \<noteq> []" by auto
  from argmax_less [OF this] l have k: "?k < n" by simp
  have ge: "\<forall>b<n. proba_distrib self ! b ! i ! j \<le> proba_distrib self ! ?k ! i ! j"
  proof (intro allI impI)
    fix b assume b: "b < n"
    with argmax_ge [of b ?col] l k show "proba_distrib self ! b ! i ! j \<le> proba_distrib self ! ?k ! i ! j"
      by simp
  qed
  have gt: "\<forall>b<?k. proba_distrib self ! b ! i ! j < proba_distrib self ! ?k ! i ! j"
  proof (intro allI impI)
    fix b assume b: "b < ?k"
    with argmax_first [of b ?col] l k show "proba_distrib self ! b ! i ! j < proba_distrib self ! ?k ! i ! j"
      by simp
  qed
  note px = get_initialized_image_pixel [OF assms(1,2,3,5,6,7)]
  have "get_initialized_image cfg self ! 1 ! i ! j = 0.5 * (fst (COEFS cfg ! ?k) + 1)"
    "get_initialized_image cfg self ! 2 ! i ! j = 0.5 * (snd (COEFS cfg ! ?k) + 1)"
    using px k assms(2) by (simp_all add: coefs_to_128_nth)
  with ge gt k show ?thesis
    by (auto simp: get_initialized_image_eq)
qed


theorem initial_target_is_mode_witness:
  "ones demo_self = ones_tensor 3 (size_lo demo_cfg) (size_lo demo_cfg) \<and>
   length (COEFS demo_cfg) = 3 \<and>
   is_plane (size_lo demo_cfg) (size_lo demo_cfg) (luminance_64 demo_self) \<and>
   is_image 3 (size_lo demo_cfg) (size_lo demo_cfg) (proba_distrib demo_self) \<and>
   0 < size_lo demo_cfg \<and>
   get_initialized_image demo_cfg demo_self ! 0 = [[1 / 5]] \<and>
   (\<exists>k<3.
      (\<forall>b<3. proba_distrib demo_self ! b ! 0 ! 0 \<le> proba_distrib demo_self ! k ! 0 ! 0) \<and>
      (\<forall>b<k. proba_distrib demo_self ! b ! 0 ! 0 < proba_distrib demo_self ! k ! 0 ! 0) \<and>
      get_initialized_image demo_cfg demo_self ! 1 ! 0 ! 0 = 0.5 * (fst (COEFS demo_cfg ! k) + 1) \<and>
      get_initialized_image demo_cfg demo_self ! 2 ! 0 ! 0 = 0.5 * (snd (COEFS demo_cfg ! k) + 1))"
proof -
  have l: "pmap (\<lambda>x. x / 100) (luminance_64 demo_self) = [[1 / 5]]"
    by (simp add: demo_self_def pmap_def)
  from initial_target_is_mode [OF demo_shapes(1,2) _ demo_shapes(3,5,6,6)] l
  show ?thesis
    using demo_shapes by simp
qed

text \<open>
  C4 as the specification states it has the chrominances of the initial target equal to the
  mode decode with the \<open>unnormalize\<close> of the expectation decode. Where the most probable bin
  has the coefficients \<open>(0, 0)\<close>, the initial target has the chrominance \<open>1/2\<close>, and the
  unnormalized coefficient is \<open>0\<close> for every \<open>unnormalize_ab\<close> that is a scaling, here by 110.
\<close>

theorem initial_target_is_not_unnormalized:
  "get_initialized_image demo_cfg demo_self ! 1 ! 0 ! 0 = 1 / 2 \<and>
   spec_mode_decode demo_cfg (proba_distrib demo_self) ! 0 ! 0 ! 0 = 0 \<and>
   get_initialized_image demo_cfg demo_self ! 1 \<noteq> spec_mode_decode demo_cfg (proba_distrib demo_self) ! 0"
proof -
  have m: "spec_mode_decode demo_cfg (proba_distrib demo_self) ! 0 ! 0 ! 0 = 0"
    by (simp add: spec_mode_decode_def along_dim1_def demo_self_def demo_argmax)
       (simp add: demo_cfg_def)
  with demo_initial_pixel(1) show ?thesis by auto
qed

section \<open>The composite loss\<close>

lemma has_entriesI:
  assumes "length t = c" "\<And>k. k < c \<Longrightarrow> length (t ! k) = h"
    "\<And>k i. k < c \<Longrightarrow> i < h \<Longrightarrow> length (t ! k ! i) = w"
    "\<And>k i j. k < c \<Longrightarrow> i < h \<Longrightarrow> j < w \<Longrightarrow> t ! k ! i ! j = f k i j"
  shows "has_entries c h w f t"
  using assms by (simp add: has_entries_def is_image_def is_plane_def list_all_length)

lemma has_entriesD:
  assumes "has_entries c h w f t"
  shows "length t = c" "k < c \<Longrightarrow> length (t ! k) = h"
    "k < c \<Longrightarrow> i < h \<Longrightarrow> length (t ! k ! i) = w"
    "k < c \<Longrightarrow> i < h \<Longrightarrow> j < w \<Longrightarrow> t ! k ! i ! j = f k i j"
  using assms by (simp_all add: has_entries_def is_image_def is_plane_def list_all_length)

lemma has_entries_self: "is_image c h w t \<Longrightarrow> has_entries c h w (\<lambda>k i j. t ! k ! i ! j) t"
  by (simp add: has_entries_def)

lemma has_entries_cols_from1:
  assumes "has_entries c h w f t"
  shows "has_entries c h (w - 1) (\<lambda>k i j. f k i (Suc j)) (cols_from1 t)"
proof (rule has_entriesI)
  note d = has_entriesD [OF assms]
  show "length (cols_from1 t) = c" by (simp add: cols_from1_def d)
  show "length (cols_from1 t ! k) = h" if "k < c" for k
    using that by (simp add: cols_from1_def d)
  show "length (cols_from1 t ! k ! i) = w - 1" if "k < c" "i < h" for k i
    using that by (simp add: cols_from1_def d)
  show "cols_from1 t ! k ! i ! j = f k i (Suc j)" if "k < c" "i < h" "j < w - 1" for k i j
    using that by (simp add: cols_from1_def d nth_tl)
qed

lemma has_entries_cols_to_last:
  assumes "has_entries c h w f t"
  shows "has_entries c h (w - 1) f (cols_to_last t)"
proof (rule has_entriesI)
  note d = has_entriesD [OF assms]
  show "length (cols_to_last t) = c" by (simp add: cols_to_last_def d)
  show "length (cols_to_last t ! k) = h" if "k < c" for k
    using that by (simp add: cols_to_last_def d)
  show "length (cols_to_last t ! k ! i) = w - 1" if "k < c" "i < h" for k i
    using that by (simp add: cols_to_last_def d)
  show "cols_to_last t ! k ! i ! j = f k i j" if "k < c" "i < h" "j < w - 1" for k i j
    using that by (simp add: cols_to_last_def d nth_butlast)
qed

lemma has_entries_rows_from1:
  assumes "has_entries c h w f t"
  shows "has_entries c (h - 1) w (\<lambda>k i j. f k (Suc i) j) (rows_from1 t)"
proof (rule has_entriesI)
  note d = has_entriesD [OF assms]
  show "length (rows_from1 t) = c" by (simp add: rows_from1_def d)
  show "length (rows_from1 t ! k) = h - 1" if "k < c" for k
    using that by (simp add: rows_from1_def d)
  show "length (rows_from1 t ! k ! i) = w" if "k < c" "i < h - 1" for k i
    using that by (simp add: rows_from1_def d nth_tl)
  show "rows_from1 t ! k ! i ! j = f k (Suc i) j" if "k < c" "i < h - 1" "j < w" for k i j
    using that by (simp add: rows_from1_def d nth_tl)
qed

lemma has_entries_rows_to_last:
  assumes "has_entries c h w f t"
  shows "has_entries c (h - 1) w f (rows_to_last t)"
proof (rule has_entriesI)
  note d = has_entriesD [OF assms]
  show "length (rows_to_last t) = c" by (simp add: rows_to_last_def d)
  show "length (rows_to_last t ! k) = h - 1" if "k < c" for k
    using that by (simp add: rows_to_last_def d)
  show "length (rows_to_last t ! k ! i) = w" if "k < c" "i < h - 1" for k i
    using that by (simp add: rows_to_last_def d nth_butlast)
  show "rows_to_last t ! k ! i ! j = f k i j" if "k < c" "i < h - 1" "j < w" for k i j
    using that by (simp add: rows_to_last_def d nth_butlast)
qed

lemma has_entries_tmap:
  assumes "has_entries c h w f t"
  shows "has_entries c h w (\<lambda>k i j. g (f k i j)) (tmap g t)"
proof (rule has_entriesI)
  note d = has_entriesD [OF assms]
  show "length (tmap g t) = c" by (simp add: tmap_def d)
  show "length (tmap g t ! k) = h" if "k < c" for k
    using that by (simp add: tmap_def pmap_def d)
  show "length (tmap g t ! k ! i) = w" if "k < c" "i < h" for k i
    using that by (simp add: tmap_def pmap_def d)
  show "tmap g t ! k ! i ! j = g (f k i j)" if "k < c" "i < h" "j < w" for k i j
    using that by (simp add: tmap_def pmap_def d)
qed

lemma has_entries_tsub:
  assumes "has_entries c h w f s" "has_entries c h w g t"
  shows "has_entries c h w (\<lambda>k i j. f k i j - g k i j) (tsub s t)"
proof (rule has_entriesI)
  note d = has_entriesD [OF assms(1)] and e = has_entriesD [OF assms(2)]
  show "length (tsub s t) = c" by (simp add: tsub_def d e)
  show "length (tsub s t ! k) = h" if "k < c" for k
    using that by (simp add: tsub_def pmap2_def d e)
  show "length (tsub s t ! k ! i) = w" if "k < c" "i < h" for k i
    using that by (simp add: tsub_def pmap2_def d e)
  show "tsub s t ! k ! i ! j = f k i j - g k i j" if "k < c" "i < h" "j < w" for k i j
    using that by (simp add: tsub_def pmap2_def d e)
qed

lemma has_entries_tadd:
  assumes "has_entries c h w f s" "has_entries c h w g t"
  shows "has_entries c h w (\<lambda>k i j. f k i j + g k i j) (tadd s t)"
proof (rule has_entriesI)
  note d = has_entriesD [OF assms(1)] and e = has_entriesD [OF assms(2)]
  have a: "tadd s t = map2 (pmap2 (+)) s t" by (simp add: tadd_def d e)
  show "length (tadd s t) = c" by (simp add: a d e)
  show "length (tadd s t ! k) = h" if "k < c" for k
    using that by (simp add: a pmap2_def d e)
  show "length (tadd s t ! k ! i) = w" if "k < c" "i < h" for k i
    using that by (simp add: a pmap2_def d e)
  show "tadd s t ! k ! i ! j = f k i j + g k i j" if "k < c" "i < h" "j < w" for k i j
    using that by (simp add: a pmap2_def d e)
qed

lemma has_entries_tadd_broadcast:
  assumes "has_entries 1 h w f s" "has_entries 2 h w g t"
  shows "has_entries 2 h w (\<lambda>k i j. f 0 i j + g k i j) (tadd s t)"
proof (rule has_entriesI)
  note d = has_entriesD [OF assms(1)] and e = has_entriesD [OF assms(2)]
  from d(1) have hd: "hd s = s ! 0" by (cases s) simp_all
  have a: "tadd s t = map (\<lambda>q. pmap2 (+) (hd s) q) t" by (simp add: tadd_def d e)
  show "length (tadd s t) = 2" by (simp add: a e)
  show "length (tadd s t ! k) = h" if "k < 2" for k
    using that by (simp add: a hd pmap2_def d e)
  show "length (tadd s t ! k ! i) = w" if "k < 2" "i < h" for k i
    using that by (simp add: a hd pmap2_def d e)
  show "tadd s t ! k ! i ! j = f 0 i j + g k i j" if "k < 2" "i < h" "j < w" for k i j
    using that by (simp add: a hd pmap2_def d e)
qed

lemma tsum_has_entries:
  assumes "has_entries c h w f t"
  shows "tsum t = (\<Sum>k<c. \<Sum>i<h. \<Sum>j<w. f k i j)"
proof -
  note d = has_entriesD [OF assms]
  have "tsum t = (\<Sum>k = 0..<length t. \<Sum>i = 0..<length (t ! k). \<Sum>j = 0..<length (t ! k ! i). t ! k ! i ! j)"
    by (simp add: tsum_def sum_list_sum_nth)
  also have "\<dots> = (\<Sum>k<c. \<Sum>i<h. \<Sum>j<w. f k i j)"
    unfolding atLeast0LessThan d(1)
    by (intro sum.cong refl) (simp_all add: d)
  finally show ?thesis .
qed

lemma numel_is_image:
  assumes "is_image c h w t"
  shows "numel t = c * h * w"
proof -
  note d = has_entriesD [OF has_entries_self [OF assms]]
  have "numel t = (\<Sum>k = 0..<length t. \<Sum>i = 0..<length (t ! k). length (t ! k ! i))"
    by (simp add: numel_def sum_list_sum_nth)
  also have "\<dots> = (\<Sum>k<c. \<Sum>i<h. w)"
    unfolding atLeast0LessThan d(1)
    by (intro sum.cong refl) (simp_all add: d)
  finally show ?thesis by simp
qed

lemma loss_fn_has_entries:
  assumes "is_image c h w s" "is_image c h w t"
  shows "loss_fn s t = (\<Sum>k<c. \<Sum>i<h. \<Sum>j<w. (s ! k ! i ! j - t ! k ! i ! j)\<^sup>2) / real (c * h * w)"
proof -
  have "has_entries c h w (\<lambda>k i j. (s ! k ! i ! j - t ! k ! i ! j)\<^sup>2) (tpow2 (tsub s t))"
    unfolding tpow2_def
    by (rule has_entries_tmap [OF has_entries_tsub [OF has_entries_self [OF assms(1)]
            has_entries_self [OF assms(2)]]])
  from tsum_has_entries [OF this] numel_is_image [OF assms(1)] show ?thesis
    by (simp add: loss_fn_def)
qed


lemma has_entries_lum:
  assumes "is_plane H W L"
  shows "has_entries 1 H W (\<lambda>k i j. L ! i ! j / 100) [pmap (\<lambda>x. x / 100) L]"
  using assms
  by (intro has_entriesI) (simp_all add: pmap_def is_plane_def list_all_length)

lemma has_entries_ab:
  assumes "is_image 3 H W t"
  shows "has_entries 2 H W (\<lambda>k i j. t ! Suc k ! i ! j) [t ! 1, t ! 2]"
proof (rule has_entriesI)
  note d = has_entriesD [OF has_entries_self [OF assms]]
  have k: "k = 0 \<or> k = 1" if "k < 2" for k :: nat
    using that by auto
  show "length [t ! 1, t ! 2] = 2" by simp
  show "length ([t ! 1, t ! 2] ! k) = H" if "k < 2" for k
    using k [OF that] d(2) [of 1] d(2) [of 2] by (auto simp: numeral_2_eq_2)
  show "length ([t ! 1, t ! 2] ! k ! i) = W" if "k < 2" "i < H" for k i
    using k [OF that(1)] that(2) d(3) [of 1 i] d(3) [of 2 i] by (auto simp: numeral_2_eq_2)
  show "[t ! 1, t ! 2] ! k ! i ! j = t ! Suc k ! i ! j" if "k < 2" "i < H" "j < W" for k i j
    using k [OF that(1)] by (auto simp: numeral_2_eq_2)
qed

lemma has_entries_channel0:
  assumes "is_image 3 H W t"
  shows "is_image 1 H W [t ! 0]"
  using is_image_nth [OF assms, of 0] by (simp add: is_image_def)

lemma demo_loss_shapes:
  "is_plane 2 2 (luminance_256 demo_self)"
  "is_image 3 2 2 (dip_net demo_cfg 1)"
  "is_image 3 1 1 (downsampler demo_cfg (dip_net demo_cfg 1))"
  "is_image 3 1 1 (target_dip demo_self)"
  by (simp_all add: demo_self_def demo_cfg_def is_image_def is_plane_def eval_nat_numeral)

text \<open>
  C3. For a luminance of \<open>H x W\<close>, a network output of three channels of \<open>H x W\<close> and a target
  of the shape of the downsampled output, the loss of \<open>closure\<close> (\<open>gamma = 100\<close>) is the sum of
  the mean squared difference of the downsampled output and the target over their three
  channels, the mean squared difference of channel 0 of the output and \<open>luminance_256 / 100\<close>,
  and \<open>0.000005\<close> times the sum of the square roots
  \<open>sqrt (0.00001 + 100 * dl_h + 100 * dl_w + dab_h + dab_w)\<close>, where \<open>dl_h\<close> and \<open>dl_w\<close> are the
  squared differences of \<open>luminance_256 / 100\<close> to the right and to the lower neighbour and
  \<open>dab_h\<close> and \<open>dab_w\<close> those of a chrominance channel of the output. The four maps are cropped
  to \<open>(H - 1) x (W - 1)\<close>; the sum runs over the entries of the two-channel map that
  broadcasting produces, that is over both chrominance channels and all pixels.
\<close>

theorem loss_coupled_tv_formula:
  assumes "is_plane H W (luminance_256 self)"
    and "is_image 3 H W out'"
    and "is_image 3 h w (downsampler cfg out')"
    and "is_image 3 h w (target_dip self)"
  shows "loss_coupled_tv cfg self out' 100 =
     (\<Sum>k<3. \<Sum>i<h. \<Sum>j<w. (downsampler cfg out' ! k ! i ! j - target_dip self ! k ! i ! j)\<^sup>2)
       / real (3 * h * w)
   + (\<Sum>i<H. \<Sum>j<W. (out' ! 0 ! i ! j - luminance_256 self ! i ! j / 100)\<^sup>2) / real (H * W)
   + 0.000005 *
     (\<Sum>c<2. \<Sum>i<H - 1. \<Sum>j<W - 1.
        sqrt (0.00001
          + 100 * (luminance_256 self ! i ! Suc j / 100 - luminance_256 self ! i ! j / 100)\<^sup>2
          + 100 * (luminance_256 self ! Suc i ! j / 100 - luminance_256 self ! i ! j / 100)\<^sup>2
          + (out' ! Suc c ! i ! Suc j - out' ! Suc c ! i ! j)\<^sup>2
          + (out' ! Suc c ! Suc i ! j - out' ! Suc c ! i ! j)\<^sup>2))"
proof -
  let ?L = "luminance_256 self"
  let ?lum = "[pmap (\<lambda>x. x / 100) ?L]"
  let ?ab = "[out' ! 1, out' ! 2]"
  let ?dl_h = "tmap (\<lambda>x. 100 * x) (tpow2 (tsub (cols_from1 ?lum) (cols_to_last ?lum)))"
  let ?dl_w = "tmap (\<lambda>x. 100 * x) (tpow2 (tsub (rows_from1 ?lum) (rows_to_last ?lum)))"
  let ?dab_h = "tpow2 (tsub (cols_from1 ?ab) (cols_to_last ?ab))"
  let ?dab_w = "tpow2 (tsub (rows_from1 ?ab) (rows_to_last ?ab))"
  note lum = has_entries_lum [OF assms(1)]
  note ab = has_entries_ab [OF assms(2)]
  have dl_h: "has_entries 1 (H - 1) (W - 1)
      (\<lambda>k i j. 0.00001 + 100 * (?L ! i ! Suc j / 100 - ?L ! i ! j / 100)\<^sup>2)
      (tmap (\<lambda>x. 0.00001 + x) (rows_to_last ?dl_h))"
    unfolding tpow2_def
    by (rule has_entries_tmap [OF has_entries_rows_to_last [OF has_entries_tmap
          [OF has_entries_tmap [OF has_entries_tsub
            [OF has_entries_cols_from1 [OF lum] has_entries_cols_to_last [OF lum]]]]]])
  have dl_w: "has_entries 1 (H - 1) (W - 1)
      (\<lambda>k i j. 100 * (?L ! Suc i ! j / 100 - ?L ! i ! j / 100)\<^sup>2)
      (cols_to_last ?dl_w)"
    unfolding tpow2_def
    by (rule has_entries_cols_to_last [OF has_entries_tmap
          [OF has_entries_tmap [OF has_entries_tsub
            [OF has_entries_rows_from1 [OF lum] has_entries_rows_to_last [OF lum]]]]])
  have dab_h: "has_entries 2 (H - 1) (W - 1)
      (\<lambda>k i j. (out' ! Suc k ! i ! Suc j - out' ! Suc k ! i ! j)\<^sup>2)
      (rows_to_last ?dab_h)"
    unfolding tpow2_def
    by (rule has_entries_rows_to_last [OF has_entries_tmap [OF has_entries_tsub
            [OF has_entries_cols_from1 [OF ab] has_entries_cols_to_last [OF ab]]]])
  have dab_w: "has_entries 2 (H - 1) (W - 1)
      (\<lambda>k i j. (out' ! Suc k ! Suc i ! j - out' ! Suc k ! i ! j)\<^sup>2)
      (cols_to_last ?dab_w)"
    unfolding tpow2_def
    by (rule has_entries_cols_to_last [OF has_entries_tmap [OF has_entries_tsub
            [OF has_entries_rows_from1 [OF ab] has_entries_rows_to_last [OF ab]]]])
  note total = has_entries_tmap [of _ _ _ _ _ sqrt, OF has_entries_tadd [OF has_entries_tadd_broadcast
        [OF has_entries_tadd [OF dl_h dl_w] dab_h] dab_w]]
  note tv = tsum_has_entries [OF total]
  note l2 = loss_fn_has_entries [OF assms(3,4)]
  have "loss_fn [out' ! 0] ?lum =
          (\<Sum>k<1. \<Sum>i<H. \<Sum>j<W. ([out' ! 0] ! k ! i ! j - ?lum ! k ! i ! j)\<^sup>2) / real (1 * H * W)"
    by (rule loss_fn_has_entries [OF has_entries_channel0 [OF assms(2)]])
       (use lum in \<open>simp add: has_entries_def\<close>)
  also have "(\<Sum>k<1. \<Sum>i<H. \<Sum>j<W. ([out' ! 0] ! k ! i ! j - ?lum ! k ! i ! j)\<^sup>2) =
             (\<Sum>i<H. \<Sum>j<W. ([out' ! 0] ! 0 ! i ! j - ?lum ! 0 ! i ! j)\<^sup>2)"
    by simp
  also have "\<dots> = (\<Sum>i<H. \<Sum>j<W. (out' ! 0 ! i ! j - ?L ! i ! j / 100)\<^sup>2)"
    by (intro sum.cong refl) (simp add: pmap_nth' [OF assms(1)])
  finally have lum_loss: "loss_fn [out' ! 0] ?lum =
      (\<Sum>i<H. \<Sum>j<W. (out' ! 0 ! i ! j - ?L ! i ! j / 100)\<^sup>2) / real (H * W)"
    by simp
  show ?thesis
    unfolding loss_coupled_tv_def Let_def tv l2 lum_loss ..
qed


theorem loss_coupled_tv_formula_witness:
  "is_plane 2 2 (luminance_256 demo_self) \<and>
   is_image 3 2 2 (dip_net demo_cfg 1) \<and>
   is_image 3 1 1 (downsampler demo_cfg (dip_net demo_cfg 1)) \<and>
   is_image 3 1 1 (target_dip demo_self) \<and>
   loss_coupled_tv demo_cfg demo_self (dip_net demo_cfg 1) 100 =
     19 / 50 + 16 / 25 + 0.000005 * (sqrt 0.00001 + sqrt 0.00001)"
proof -
  have d: "dip_net demo_cfg 1 = [[[1, 1], [1, 1]], [[1, 1], [1, 1]], [[1, 1], [1, 1]]]"
    "downsampler demo_cfg [[[1, 1], [1, 1]], [[1, 1], [1, 1]], [[1, 1], [1, 1]]] =
       [[[1]], [[1]], [[1]]]"
    by (simp_all add: demo_cfg_def eval_nat_numeral)
  have t: "target_dip demo_self = [[[1 / 5]], [[1 / 2]], [[1 / 2]]]"
    "luminance_256 demo_self = [[20, 20], [20, 20]]"
    by (simp_all add: demo_self_def)
  have "loss_coupled_tv demo_cfg demo_self (dip_net demo_cfg 1) 100 =
     19 / 50 + 16 / 25 + 0.000005 * (sqrt 0.00001 + sqrt 0.00001)"
    by (subst loss_coupled_tv_formula [OF demo_loss_shapes])
       (simp add: d t eval_nat_numeral lessThan_Suc power2_eq_square)
  with demo_loss_shapes show ?thesis by simp
qed

end
